theory Spec2Isabelle
  imports Main "HOL-Library.Word"
begin

unbundle bit_operations_syntax

section \<open>A shallow embedding of \<^verbatim>\<open>examples/netfilter/netfilter.c\<close>\<close>

text \<open>
  The program concatenates its command-line arguments into a filter string, opens the
  diversion device with it, builds four pre-fabricated packets (a TCP reset and an ICMP
  "destination unreachable", each over IPv4 and over IPv6) and then, for every packet the
  device hands over, fills in the variable fields of the matching pre-fabricated packets
  and sends them.

  The header \<^verbatim>\<open>divert.h\<close> is not part of the sources at hand, so what it declares is
  either a parameter of the model (record \<open>divert_h\<close> below) or, where the specification
  states it, a definition marked as modelled from the specification.
\<close>

subsection \<open>Machine integers and byte order\<close>

type_synonym UINT8 = "8 word"
type_synonym UINT16 = "16 word"
type_synonym UINT32 = "32 word"
type_synonym UINT = "32 word"

text \<open>
  The program is a Windows program (\<^verbatim>\<open>winsock2.h\<close>, \<^verbatim>\<open>windows.h\<close>), so the host is
  little-endian and the four conversions of Winsock reverse the bytes of their argument.
\<close>

definition htons :: "UINT16 \<Rightarrow> UINT16" where
  "htons x = push_bit 8 x OR drop_bit 8 x"

definition ntohs :: "UINT16 \<Rightarrow> UINT16" where
  "ntohs x = push_bit 8 x OR drop_bit 8 x"

definition htonl :: "UINT32 \<Rightarrow> UINT32" where
  "htonl x = push_bit 24 (take_bit 8 x) OR push_bit 16 (take_bit 8 (drop_bit 8 x))
             OR push_bit 8 (take_bit 8 (drop_bit 16 x)) OR drop_bit 24 x"

definition ntohl :: "UINT32 \<Rightarrow> UINT32" where
  "ntohl x = push_bit 24 (take_bit 8 x) OR push_bit 16 (take_bit 8 (drop_bit 8 x))
             OR push_bit 8 (take_bit 8 (drop_bit 16 x)) OR drop_bit 24 x"

text \<open>C's logical negation \<^verbatim>\<open>!x\<close>, stored into a \<^verbatim>\<open>UINT8\<close> field.\<close>

definition lnot :: "UINT8 \<Rightarrow> UINT8" where
  "lnot x = (if x = 0 then 1 else 0)"

subsection \<open>What \<^verbatim>\<open>divert.h\<close> and the system headers declare\<close>

text \<open>
  The sizes of the envelope and of the two ICMP header structs, and the value of the
  constant for the outbound direction, are declared in \<^verbatim>\<open>divert.h\<close>; the specification
  does not give them, so they are parameters. Sizes are kept as 32-bit words: every
  length the program computes is stored in a \<^verbatim>\<open>UINT\<close>, and truncating \<^verbatim>\<open>size_t\<close>
  arithmetic to 32 bits commutes with \<open>+\<close> and \<open>-\<close>.
\<close>

record divert_h =
  sizeof_DIVERT_PACKET :: UINT
  sizeof_DIVERT_ICMPHDR :: UINT
  sizeof_DIVERT_ICMPV6HDR :: UINT
  DIVERT_PACKET_DIRECTION_OUTBOUND :: UINT8

text \<open>
  Modelled from the spec: the sizes of \<^verbatim>\<open>DIVERT_IPHDR\<close>, \<^verbatim>\<open>DIVERT_IPV6HDR\<close> and
  \<^verbatim>\<open>DIVERT_TCPHDR\<close>, declared in \<^verbatim>\<open>divert.h\<close>. The specification gives a 20-byte
  fixed IPv4 header, a 40-byte fixed IPv6 header and a 20-byte fixed TCP header.
\<close>

definition sizeof_DIVERT_IPHDR :: UINT where
  "sizeof_DIVERT_IPHDR = 20"

definition sizeof_DIVERT_IPV6HDR :: UINT where
  "sizeof_DIVERT_IPV6HDR = 40"

definition sizeof_DIVERT_TCPHDR :: UINT where
  "sizeof_DIVERT_TCPHDR = 20"

definition sizeof_UINT32 :: UINT where
  "sizeof_UINT32 = 4"

text \<open>Protocol numbers of \<^verbatim>\<open>winsock2.h\<close> and the exit status of \<^verbatim>\<open>stdlib.h\<close>.\<close>

definition IPPROTO_ICMP :: UINT8 where
  "IPPROTO_ICMP = 1"

definition IPPROTO_TCP :: UINT8 where
  "IPPROTO_TCP = 6"

definition IPPROTO_ICMPV6 :: UINT8 where
  "IPPROTO_ICMPV6 = 58"

definition EXIT_FAILURE :: int where
  "EXIT_FAILURE = 1"

definition MAXBUF :: nat where
  "MAXBUF = 2048"

subsection \<open>Headers\<close>

text \<open>
  Modelled from the spec: the header structs of \<^verbatim>\<open>divert.h\<close>. Each record has the fields
  that \<^verbatim>\<open>netfilter.c\<close> reads or writes and the checksum that the checksum helper writes;
  bit-fields have the width the wire format gives them. Multi-byte fields hold the value
  the host reads from memory, that is the wire value with its bytes reversed. Field names
  carry the struct as a prefix, since several structs share names such as \<^verbatim>\<open>SrcAddr\<close>.
\<close>

record DIVERT_PACKET =
  IfIdx :: UINT32
  SubIfIdx :: UINT32
  Direction :: UINT8

record DIVERT_IPHDR =
  ip_HdrLength :: "4 word"
  ip_Version :: "4 word"
  ip_Length :: UINT16
  ip_Id :: UINT16
  ip_TTL :: UINT8
  ip_Protocol :: UINT8
  ip_Checksum :: UINT16
  ip_SrcAddr :: UINT32
  ip_DstAddr :: UINT32

record DIVERT_IPV6HDR =
  ipv6_Version :: "4 word"
  ipv6_Length :: UINT16
  ipv6_NextHdr :: UINT8
  ipv6_HopLimit :: UINT8
  ipv6_SrcAddr :: "UINT32 list"
  ipv6_DstAddr :: "UINT32 list"

record DIVERT_TCPHDR =
  tcp_SrcPort :: UINT16
  tcp_DstPort :: UINT16
  tcp_SeqNum :: UINT32
  tcp_AckNum :: UINT32
  tcp_HdrLength :: "4 word"
  tcp_Fin :: "1 word"
  tcp_Syn :: "1 word"
  tcp_Rst :: "1 word"
  tcp_Psh :: "1 word"
  tcp_Ack :: "1 word"
  tcp_Urg :: "1 word"
  tcp_Window :: UINT16
  tcp_Checksum :: UINT16

record DIVERT_UDPHDR =
  udp_SrcPort :: UINT16
  udp_DstPort :: UINT16
  udp_Length :: UINT16
  udp_Checksum :: UINT16

record DIVERT_ICMPHDR =
  icmp_Type :: UINT8
  icmp_Code :: UINT8
  icmp_Checksum :: UINT16

record DIVERT_ICMPV6HDR =
  icmpv6_Type :: UINT8
  icmpv6_Code :: UINT8
  icmpv6_Checksum :: UINT16

subsection \<open>Pre-fabricated packets\<close>

record PACKET =
  divert :: DIVERT_PACKET
  ip :: DIVERT_IPHDR

record PACKETV6 =
  divert6 :: DIVERT_PACKET
  ipv6 :: DIVERT_IPV6HDR

record TCPPACKET =
  header :: PACKET
  tcp :: DIVERT_TCPHDR

record TCPV6PACKET =
  header6 :: PACKETV6
  tcp6 :: DIVERT_TCPHDR

text \<open>
  The two ICMP packets end in a flexible array member \<^verbatim>\<open>data[]\<close>; the model keeps the
  bytes that the enclosing array (\<^verbatim>\<open>dnr0\<close>, \<^verbatim>\<open>dnrv6_0\<close>) provides behind the struct.
\<close>

record ICMPPACKET =
  iheader :: PACKET
  icmp :: DIVERT_ICMPHDR
  data :: "UINT8 list"

record ICMPV6PACKET =
  iheader6 :: PACKETV6
  icmpv6 :: DIVERT_ICMPV6HDR
  data6 :: "UINT8 list"

text \<open>
  The size of a struct is the sum of the sizes of its members: all member sizes are
  multiples of four bytes in the wire formats, so no padding is inserted.
\<close>

definition sizeof_PACKET :: "divert_h \<Rightarrow> UINT" where
  "sizeof_PACKET h = sizeof_DIVERT_PACKET h + sizeof_DIVERT_IPHDR"

definition sizeof_PACKETV6 :: "divert_h \<Rightarrow> UINT" where
  "sizeof_PACKETV6 h = sizeof_DIVERT_PACKET h + sizeof_DIVERT_IPV6HDR"

definition sizeof_TCPPACKET :: "divert_h \<Rightarrow> UINT" where
  "sizeof_TCPPACKET h = sizeof_PACKET h + sizeof_DIVERT_TCPHDR"

definition sizeof_TCPV6PACKET :: "divert_h \<Rightarrow> UINT" where
  "sizeof_TCPV6PACKET h = sizeof_PACKETV6 h + sizeof_DIVERT_TCPHDR"

definition sizeof_ICMPPACKET :: "divert_h \<Rightarrow> UINT" where
  "sizeof_ICMPPACKET h = sizeof_PACKET h + sizeof_DIVERT_ICMPHDR h"

definition sizeof_ICMPV6PACKET :: "divert_h \<Rightarrow> UINT" where
  "sizeof_ICMPV6PACKET h = sizeof_PACKETV6 h + sizeof_DIVERT_ICMPV6HDR h"

text \<open>The bytes behind the struct in \<^verbatim>\<open>dnr0\<close> and in \<^verbatim>\<open>dnrv6_0\<close>.\<close>

definition dnr_data_size :: nat where
  "dnr_data_size = 0x0F * unat sizeof_UINT32 + 8 + 1"

definition dnrv6_data_size :: nat where
  "dnrv6_data_size = unat sizeof_DIVERT_IPV6HDR + unat sizeof_DIVERT_TCPHDR"

subsection \<open>Initialisation of the pre-fabricated packets\<close>

text \<open>\<^verbatim>\<open>memset(p, 0, sizeof ...)\<close> sets every field of the struct to zero.\<close>

definition zero_DIVERT_PACKET :: DIVERT_PACKET where
  "zero_DIVERT_PACKET = \<lparr>IfIdx = 0, SubIfIdx = 0, Direction = 0\<rparr>"

definition zero_IPHDR :: DIVERT_IPHDR where
  "zero_IPHDR = \<lparr>ip_HdrLength = 0, ip_Version = 0, ip_Length = 0, ip_Id = 0, ip_TTL = 0,
     ip_Protocol = 0, ip_Checksum = 0, ip_SrcAddr = 0, ip_DstAddr = 0\<rparr>"

definition zero_IPV6HDR :: DIVERT_IPV6HDR where
  "zero_IPV6HDR = \<lparr>ipv6_Version = 0, ipv6_Length = 0, ipv6_NextHdr = 0, ipv6_HopLimit = 0,
     ipv6_SrcAddr = [0, 0, 0, 0], ipv6_DstAddr = [0, 0, 0, 0]\<rparr>"

definition zero_TCPHDR :: DIVERT_TCPHDR where
  "zero_TCPHDR = \<lparr>tcp_SrcPort = 0, tcp_DstPort = 0, tcp_SeqNum = 0, tcp_AckNum = 0,
     tcp_HdrLength = 0, tcp_Fin = 0, tcp_Syn = 0, tcp_Rst = 0, tcp_Psh = 0, tcp_Ack = 0,
     tcp_Urg = 0, tcp_Window = 0, tcp_Checksum = 0\<rparr>"

definition zero_ICMPHDR :: DIVERT_ICMPHDR where
  "zero_ICMPHDR = \<lparr>icmp_Type = 0, icmp_Code = 0, icmp_Checksum = 0\<rparr>"

definition zero_ICMPV6HDR :: DIVERT_ICMPV6HDR where
  "zero_ICMPV6HDR = \<lparr>icmpv6_Type = 0, icmpv6_Code = 0, icmpv6_Checksum = 0\<rparr>"

definition PacketIpInit :: "PACKET \<Rightarrow> PACKET" where
  "PacketIpInit packet =
     (let packet = packet\<lparr>divert := zero_DIVERT_PACKET, ip := zero_IPHDR\<rparr>;
          packet = packet\<lparr>ip := (ip packet)\<lparr>ip_Version := 4\<rparr>\<rparr>;
          packet = packet\<lparr>ip := (ip packet)
                     \<lparr>ip_HdrLength := ucast (sizeof_DIVERT_IPHDR div sizeof_UINT32)\<rparr>\<rparr>;
          packet = packet\<lparr>ip := (ip packet)\<lparr>ip_Id := ntohs 0xDEAD\<rparr>\<rparr>;
          packet = packet\<lparr>ip := (ip packet)\<lparr>ip_TTL := 64\<rparr>\<rparr>
      in packet)"

definition PacketIpTcpInit :: "divert_h \<Rightarrow> TCPPACKET \<Rightarrow> TCPPACKET" where
  "PacketIpTcpInit h packet =
     (let packet = packet\<lparr>header := (header packet)
                       \<lparr>divert := zero_DIVERT_PACKET, ip := zero_IPHDR\<rparr>, tcp := zero_TCPHDR\<rparr>;
          packet = packet\<lparr>header := PacketIpInit (header packet)\<rparr>;
          packet = packet\<lparr>header := (header packet)\<lparr>ip := (ip (header packet))
                     \<lparr>ip_Length := htons (ucast (sizeof_TCPPACKET h - sizeof_DIVERT_PACKET h))\<rparr>\<rparr>\<rparr>;
          packet = packet\<lparr>header := (header packet)\<lparr>ip := (ip (header packet))
                     \<lparr>ip_Protocol := IPPROTO_TCP\<rparr>\<rparr>\<rparr>;
          packet = packet\<lparr>tcp := (tcp packet)
                     \<lparr>tcp_HdrLength := ucast (sizeof_DIVERT_TCPHDR div sizeof_UINT32)\<rparr>\<rparr>
      in packet)"

definition PacketIpIcmpInit :: "ICMPPACKET \<Rightarrow> ICMPPACKET" where
  "PacketIpIcmpInit packet =
     (let packet = packet\<lparr>iheader := (iheader packet)
                       \<lparr>divert := zero_DIVERT_PACKET, ip := zero_IPHDR\<rparr>, icmp := zero_ICMPHDR\<rparr>;
          packet = packet\<lparr>iheader := PacketIpInit (iheader packet)\<rparr>;
          packet = packet\<lparr>iheader := (iheader packet)\<lparr>ip := (ip (iheader packet))
                     \<lparr>ip_Protocol := IPPROTO_ICMP\<rparr>\<rparr>\<rparr>
      in packet)"

definition PacketIpv6Init :: "PACKETV6 \<Rightarrow> PACKETV6" where
  "PacketIpv6Init packet =
     (let packet = packet\<lparr>divert6 := zero_DIVERT_PACKET, ipv6 := zero_IPV6HDR\<rparr>;
          packet = packet\<lparr>ipv6 := (ipv6 packet)\<lparr>ipv6_Version := 6\<rparr>\<rparr>;
          packet = packet\<lparr>ipv6 := (ipv6 packet)\<lparr>ipv6_HopLimit := 64\<rparr>\<rparr>
      in packet)"

definition PacketIpv6TcpInit :: "TCPV6PACKET \<Rightarrow> TCPV6PACKET" where
  "PacketIpv6TcpInit packet =
     (let packet = packet\<lparr>header6 := (header6 packet)
                       \<lparr>divert6 := zero_DIVERT_PACKET, ipv6 := zero_IPV6HDR\<rparr>, tcp6 := zero_TCPHDR\<rparr>;
          packet = packet\<lparr>header6 := PacketIpv6Init (header6 packet)\<rparr>;
          packet = packet\<lparr>header6 := (header6 packet)\<lparr>ipv6 := (ipv6 (header6 packet))
                     \<lparr>ipv6_Length := htons (ucast sizeof_DIVERT_TCPHDR)\<rparr>\<rparr>\<rparr>;
          packet = packet\<lparr>header6 := (header6 packet)\<lparr>ipv6 := (ipv6 (header6 packet))
                     \<lparr>ipv6_NextHdr := IPPROTO_TCP\<rparr>\<rparr>\<rparr>;
          packet = packet\<lparr>tcp6 := (tcp6 packet)
                     \<lparr>tcp_HdrLength := ucast (sizeof_DIVERT_TCPHDR div sizeof_UINT32)\<rparr>\<rparr>
      in packet)"

definition PacketIpv6Icmpv6Init :: "ICMPV6PACKET \<Rightarrow> ICMPV6PACKET" where
  "PacketIpv6Icmpv6Init packet =
     (let packet = packet\<lparr>iheader6 := (iheader6 packet)
                       \<lparr>divert6 := zero_DIVERT_PACKET, ipv6 := zero_IPV6HDR\<rparr>,
                     icmpv6 := zero_ICMPV6HDR\<rparr>;
          packet = packet\<lparr>iheader6 := PacketIpv6Init (iheader6 packet)\<rparr>;
          packet = packet\<lparr>iheader6 := (iheader6 packet)\<lparr>ipv6 := (ipv6 (iheader6 packet))
                     \<lparr>ipv6_NextHdr := IPPROTO_ICMPV6\<rparr>\<rparr>\<rparr>
      in packet)"

subsection \<open>The filter string\<close>

text \<open>
  An argument \<^verbatim>\<open>argv[i]\<close> is modelled by the characters before its terminating NUL, so
  \<^verbatim>\<open>strlen\<close> is the length of the list. \<^verbatim>\<open>strcpy(filter+flen, a)\<close> writes the characters
  of \<open>a\<close> and a NUL; the guard of the loop keeps the write inside the array.
\<close>

definition NUL :: char where
  "NUL = CHR 0x00"

definition strlen :: "string \<Rightarrow> nat" where
  "strlen a = length a"

definition strcpy :: "char list \<Rightarrow> nat \<Rightarrow> string \<Rightarrow> char list" where
  "strcpy buf off a = take off buf @ a @ [NUL] @ drop (off + strlen a + 1) buf"

text \<open>What a callee reads from a \<^verbatim>\<open>char *\<close>: the characters before the first NUL.\<close>

definition c_string :: "char list \<Rightarrow> string" where
  "c_string buf = takeWhile (\<lambda>c. c \<noteq> NUL) buf"

datatype fatal = FilterTooLong

text \<open>
  The loop \<^verbatim>\<open>for (i = 1; (int)i < argc; i++)\<close> over the arguments after the program name,
  with the state \<^verbatim>\<open>(flen, filter)\<close> (the array is \<open>filter_buf\<close> here).
\<close>

fun concat_args :: "string list \<Rightarrow> nat \<Rightarrow> char list \<Rightarrow> fatal + (nat \<times> char list)" where
  "concat_args [] flen filter_buf = Inr (flen, filter_buf)"
| "concat_args (a # as) flen filter_buf =
     (let slen = strlen a in
      if flen + slen + 1 \<ge> MAXBUF then Inl FilterTooLong
      else
        let filter_buf = strcpy filter_buf flen a;
            flen = flen + slen;
            filter_buf = filter_buf[flen := CHR '' ''];
            flen = flen + 1
        in concat_args as flen filter_buf)"

definition build_filter :: "string list \<Rightarrow> char list \<Rightarrow> fatal + char list" where
  "build_filter args filter_buf =
     (case concat_args args 0 filter_buf of
        Inl e \<Rightarrow> Inl e
      | Inr (flen, filter_buf) \<Rightarrow> Inr (filter_buf[flen := NUL]))"

subsection \<open>The state of the main loop and what it exchanges with its collaborators\<close>

record state =
  reset :: TCPPACKET
  dnr :: ICMPPACKET
  resetv6 :: TCPV6PACKET
  dnrv6 :: ICMPV6PACKET

text \<open>
  A header pointer that \<^verbatim>\<open>DivertHelperParse\<close> returns points into the array \<^verbatim>\<open>packet\<close>:
  the model keeps the offset in the array and the fields read through the pointer.
  \<open>None\<close> is \<^verbatim>\<open>NULL\<close>.
\<close>

record 'h view =
  view_off :: nat
  view_hdr :: 'h

record received =
  ppacket :: DIVERT_PACKET
  packet :: "UINT8 list"
  ip_header :: "DIVERT_IPHDR view option"
  ipv6_header :: "DIVERT_IPV6HDR view option"
  icmp_header :: "DIVERT_ICMPHDR view option"
  icmpv6_header :: "DIVERT_ICMPV6HDR view option"
  tcp_header :: "DIVERT_TCPHDR view option"
  udp_header :: "DIVERT_UDPHDR view option"
  payload_len :: UINT

text \<open>
  What the other collaborators answer during one iteration: the checksums that
  \<^verbatim>\<open>DivertHelperCalcChecksums\<close> computes for each of the four packets, whether each
  \<^verbatim>\<open>DivertSend\<close> succeeds, and the value of \<^verbatim>\<open>GetLastError()\<close>.
\<close>

record collab =
  sums_reset :: "UINT16 \<times> UINT16"
  sums_resetv6 :: UINT16
  sums_dnr :: "UINT16 \<times> UINT16"
  sums_dnrv6 :: UINT16
  send_reset_ok :: bool
  send_resetv6_ok :: bool
  send_dnr_ok :: bool
  send_dnrv6_ok :: bool
  last_error :: UINT32

datatype event = RecvFailed | Recv received collab

datatype response =
    Reset TCPPACKET
  | ResetV6 TCPV6PACKET
  | Dnr ICMPPACKET
  | DnrV6 ICMPV6PACKET

text \<open>
  What the program does to the outside: a line on \<^verbatim>\<open>stderr\<close> (with the number printed by
  \<^verbatim>\<open>%d\<close>, if any), the call of \<^verbatim>\<open>DivertOpen\<close> with the filter string, and a call of
  \<^verbatim>\<open>DivertSend\<close> with the buffer as it is at the call and the length passed. Messages
  are given without their final newline; the dump of each packet on \<^verbatim>\<open>stdout\<close> is
  left out.
\<close>

datatype out =
    Stderr string
  | StderrCode string UINT32
  | DivertOpen string
  | DivertSend response UINT

datatype error = ReadOutOfBounds | WriteOutOfBounds

text \<open>
  \<^verbatim>\<open>memcpy(dst, src + off, n)\<close> on byte arrays. A copy that leaves either array is
  undefined behaviour in C and an error value here.
\<close>

definition memcpy :: "UINT8 list \<Rightarrow> UINT8 list \<Rightarrow> nat \<Rightarrow> nat \<Rightarrow> error + UINT8 list" where
  "memcpy dst src off n =
     (if length dst < n then Inl WriteOutOfBounds
      else if length src < off + n then Inl ReadOutOfBounds
      else Inr (take n (drop off src) @ drop n dst))"

text \<open>
  Modelled from the spec: \<^verbatim>\<open>DivertHelperCalcChecksums\<close>, whose code is in the library and
  not in \<^verbatim>\<open>netfilter.c\<close>. It works in place on the assembled buffer and writes the
  checksum fields only; the values are those the collaborator answers.
\<close>

definition CalcChecksums_reset :: "UINT16 \<times> UINT16 \<Rightarrow> TCPPACKET \<Rightarrow> TCPPACKET" where
  "CalcChecksums_reset c p =
     p\<lparr>header := (header p)\<lparr>ip := (ip (header p))\<lparr>ip_Checksum := fst c\<rparr>\<rparr>,
       tcp := (tcp p)\<lparr>tcp_Checksum := snd c\<rparr>\<rparr>"

definition CalcChecksums_resetv6 :: "UINT16 \<Rightarrow> TCPV6PACKET \<Rightarrow> TCPV6PACKET" where
  "CalcChecksums_resetv6 c p = p\<lparr>tcp6 := (tcp6 p)\<lparr>tcp_Checksum := c\<rparr>\<rparr>"

definition CalcChecksums_dnr :: "UINT16 \<times> UINT16 \<Rightarrow> ICMPPACKET \<Rightarrow> ICMPPACKET" where
  "CalcChecksums_dnr c p =
     p\<lparr>iheader := (iheader p)\<lparr>ip := (ip (iheader p))\<lparr>ip_Checksum := fst c\<rparr>\<rparr>,
       icmp := (icmp p)\<lparr>icmp_Checksum := snd c\<rparr>\<rparr>"

definition CalcChecksums_dnrv6 :: "UINT16 \<Rightarrow> ICMPV6PACKET \<Rightarrow> ICMPV6PACKET" where
  "CalcChecksums_dnrv6 c p = p\<lparr>icmpv6 := (icmpv6 p)\<lparr>icmpv6_Checksum := c\<rparr>\<rparr>"

subsection \<open>Response synthesis: the field assignments of the four branches\<close>

text \<open>Lines 269 to 281: the TCP reset over IPv4.\<close>

definition fill_reset :: "received \<Rightarrow> DIVERT_IPHDR \<Rightarrow> DIVERT_TCPHDR \<Rightarrow> TCPPACKET \<Rightarrow> TCPPACKET" where
  "fill_reset r iph tcph p =
     (let p = header_update (divert_update (IfIdx_update (\<lambda>_. IfIdx (ppacket r)))) p;
          p = header_update (divert_update (SubIfIdx_update (\<lambda>_. SubIfIdx (ppacket r)))) p;
          p = header_update (divert_update
                (Direction_update (\<lambda>_. lnot (Direction (ppacket r))))) p;
          p = header_update (ip_update (ip_SrcAddr_update (\<lambda>_. ip_DstAddr iph))) p;
          p = header_update (ip_update (ip_DstAddr_update (\<lambda>_. ip_SrcAddr iph))) p;
          p = tcp_update (tcp_SrcPort_update (\<lambda>_. tcp_DstPort tcph)) p;
          p = tcp_update (tcp_DstPort_update (\<lambda>_. tcp_SrcPort tcph)) p;
          p = tcp_update (tcp_SeqNum_update
                (\<lambda>_. if tcp_Ack tcph \<noteq> 0 then tcp_AckNum tcph else 0)) p;
          p = tcp_update (tcp_AckNum_update
                (\<lambda>_. if tcp_Syn tcph \<noteq> 0
                     then htonl (ntohl (tcp_SeqNum tcph) + 1)
                     else htonl (ntohl (tcp_SeqNum tcph) + payload_len r))) p
      in p)"

text \<open>
  Lines 295 to 309: the TCP reset over IPv6. The two \<^verbatim>\<open>memcpy\<close> calls copy the whole
  address arrays (\<^verbatim>\<open>sizeof(resetv6->header.ipv6.SrcAddr)\<close> bytes).
\<close>

definition fill_resetv6 ::
  "received \<Rightarrow> DIVERT_IPV6HDR \<Rightarrow> DIVERT_TCPHDR \<Rightarrow> TCPV6PACKET \<Rightarrow> TCPV6PACKET" where
  "fill_resetv6 r ip6h tcph p =
     (let p = header6_update (divert6_update (IfIdx_update (\<lambda>_. IfIdx (ppacket r)))) p;
          p = header6_update (divert6_update (SubIfIdx_update (\<lambda>_. SubIfIdx (ppacket r)))) p;
          p = header6_update (divert6_update
                (Direction_update (\<lambda>_. lnot (Direction (ppacket r))))) p;
          p = header6_update (ipv6_update (ipv6_SrcAddr_update (\<lambda>_. ipv6_DstAddr ip6h))) p;
          p = header6_update (ipv6_update (ipv6_DstAddr_update (\<lambda>_. ipv6_SrcAddr ip6h))) p;
          p = tcp6_update (tcp_SrcPort_update (\<lambda>_. tcp_DstPort tcph)) p;
          p = tcp6_update (tcp_DstPort_update (\<lambda>_. tcp_SrcPort tcph)) p;
          p = tcp6_update (tcp_SeqNum_update
                (\<lambda>_. if tcp_Ack tcph \<noteq> 0 then tcp_AckNum tcph else 0)) p;
          p = tcp6_update (tcp_AckNum_update
                (\<lambda>_. if tcp_Syn tcph \<noteq> 0
                     then htonl (ntohl (tcp_SeqNum tcph) + 1)
                     else htonl (ntohl (tcp_SeqNum tcph) + payload_len r))) p
      in p)"

definition reset_branch ::
  "divert_h \<Rightarrow> received \<Rightarrow> collab \<Rightarrow> DIVERT_IPHDR \<Rightarrow> DIVERT_TCPHDR \<Rightarrow> state
     \<Rightarrow> state \<times> out list" where
  "reset_branch h r x iph tcph s =
     (let p = fill_reset r iph tcph (reset s);
          p = CalcChecksums_reset (sums_reset x) p
      in (s\<lparr>reset := p\<rparr>,
          DivertSend (Reset p) (sizeof_TCPPACKET h) #
          (if send_reset_ok x then []
           else [StderrCode ''warning: failed to send TCP reset (%d)'' (last_error x)])))"

definition resetv6_branch ::
  "divert_h \<Rightarrow> received \<Rightarrow> collab \<Rightarrow> DIVERT_IPV6HDR \<Rightarrow> DIVERT_TCPHDR \<Rightarrow> state
     \<Rightarrow> state \<times> out list" where
  "resetv6_branch h r x ip6h tcph s =
     (let p = fill_resetv6 r ip6h tcph (resetv6 s);
          p = CalcChecksums_resetv6 (sums_resetv6 x) p
      in (s\<lparr>resetv6 := p\<rparr>,
          DivertSend (ResetV6 p) (sizeof_TCPV6PACKET h) #
          (if send_resetv6_ok x then []
           else [StderrCode ''warning: failed to send TCP (IPV6) reset (%d)'' (last_error x)])))"

text \<open>
  Lines 334 to 341: the ICMP message over IPv4, after the copy of the embedded region;
  \<open>icmp_length\<close> is the value of the variable after line 333, the length of the whole
  buffer.
\<close>

definition fill_dnr :: "divert_h \<Rightarrow> received \<Rightarrow> DIVERT_IPHDR \<Rightarrow> UINT \<Rightarrow> ICMPPACKET \<Rightarrow> ICMPPACKET" where
  "fill_dnr h r iph icmp_length p =
     (let p = iheader_update (divert_update (IfIdx_update (\<lambda>_. IfIdx (ppacket r)))) p;
          p = iheader_update (divert_update (SubIfIdx_update (\<lambda>_. SubIfIdx (ppacket r)))) p;
          p = iheader_update (divert_update
                (Direction_update (\<lambda>_. DIVERT_PACKET_DIRECTION_OUTBOUND h))) p;
          p = iheader_update (ip_update (ip_Length_update
                (\<lambda>_. htons (ucast (icmp_length - sizeof_DIVERT_PACKET h))))) p;
          p = iheader_update (ip_update (ip_SrcAddr_update (\<lambda>_. ip_DstAddr iph))) p;
          p = iheader_update (ip_update (ip_DstAddr_update (\<lambda>_. ip_SrcAddr iph))) p
      in p)"

text \<open>Lines 357 to 364: the ICMPv6 message over IPv6, after the copy.\<close>

definition fill_dnrv6 :: "divert_h \<Rightarrow> received \<Rightarrow> DIVERT_IPV6HDR \<Rightarrow> ICMPV6PACKET \<Rightarrow> ICMPV6PACKET" where
  "fill_dnrv6 h r ip6h p =
     (let p = iheader6_update (divert6_update (IfIdx_update (\<lambda>_. IfIdx (ppacket r)))) p;
          p = iheader6_update (divert6_update (SubIfIdx_update (\<lambda>_. SubIfIdx (ppacket r)))) p;
          p = iheader6_update (divert6_update
                (Direction_update (\<lambda>_. DIVERT_PACKET_DIRECTION_OUTBOUND h))) p;
          p = iheader6_update (ipv6_update (ipv6_SrcAddr_update (\<lambda>_. ipv6_DstAddr ip6h))) p;
          p = iheader6_update (ipv6_update (ipv6_DstAddr_update (\<lambda>_. ipv6_SrcAddr ip6h))) p
      in p)"

text \<open>
  Lines 331 to 348. \<^verbatim>\<open>icmp_length\<close> is first the number of bytes copied from the
  intercepted IPv4 header on, then the length of the whole buffer.
\<close>

definition dnr_branch ::
  "divert_h \<Rightarrow> received \<Rightarrow> collab \<Rightarrow> DIVERT_IPHDR view \<Rightarrow> state
     \<Rightarrow> error + state \<times> out list" where
  "dnr_branch h r x ipv s =
     (let iph = view_hdr ipv;
          icmp_length = ucast (ip_HdrLength iph) * sizeof_UINT32 + 8
      in case memcpy (data (dnr s)) (packet r) (view_off ipv) (unat icmp_length) of
           Inl e \<Rightarrow> Inl e
         | Inr d \<Rightarrow>
            (let p = data_update (\<lambda>_. d) (dnr s);
                 icmp_length = icmp_length + sizeof_ICMPPACKET h;
                 p = fill_dnr h r iph icmp_length p;
                 p = CalcChecksums_dnr (sums_dnr x) p
             in Inr (s\<lparr>dnr := p\<rparr>,
                     DivertSend (Dnr p) icmp_length #
                     (if send_dnr_ok x then []
                      else [StderrCode ''warning: failed to send ICMP message (%d)''
                              (last_error x)]))))"

text \<open>Lines 353 to 372.\<close>

definition dnrv6_branch ::
  "divert_h \<Rightarrow> received \<Rightarrow> collab \<Rightarrow> DIVERT_IPV6HDR view \<Rightarrow> state
     \<Rightarrow> error + state \<times> out list" where
  "dnrv6_branch h r x ip6v s =
     (let ip6h = view_hdr ip6v;
          icmpv6_length = sizeof_DIVERT_IPV6HDR + sizeof_DIVERT_TCPHDR
      in case memcpy (data6 (dnrv6 s)) (packet r) (view_off ip6v) (unat icmpv6_length) of
           Inl e \<Rightarrow> Inl e
         | Inr d \<Rightarrow>
            (let p = data6_update (\<lambda>_. d) (dnrv6 s);
                 icmpv6_length = icmpv6_length + sizeof_ICMPV6PACKET h;
                 p = fill_dnrv6 h r ip6h p;
                 p = CalcChecksums_dnrv6 (sums_dnrv6 x) p
             in Inr (s\<lparr>dnrv6 := p\<rparr>,
                     DivertSend (DnrV6 p) icmpv6_length #
                     (if send_dnrv6_ok x then []
                      else [StderrCode ''warning: failed to send ICMPv6 message (%d)''
                              (last_error x)]))))"

subsection \<open>One iteration of the main loop\<close>

text \<open>The block \<^verbatim>\<open>if (tcp_header != NULL)\<close>, lines 236 to 320.\<close>

definition tcp_part :: "divert_h \<Rightarrow> received \<Rightarrow> collab \<Rightarrow> state \<Rightarrow> state \<times> out list" where
  "tcp_part h r x s =
     (case tcp_header r of
        None \<Rightarrow> (s, [])
      | Some tcpv \<Rightarrow>
         (let (s, o1) = (case ip_header r of
                           None \<Rightarrow> (s, [])
                         | Some ipv \<Rightarrow> reset_branch h r x (view_hdr ipv) (view_hdr tcpv) s);
              (s, o2) = (case ipv6_header r of
                           None \<Rightarrow> (s, [])
                         | Some ip6v \<Rightarrow> resetv6_branch h r x (view_hdr ip6v) (view_hdr tcpv) s)
          in (s, o1 @ o2)))"

text \<open>The block \<^verbatim>\<open>if (udp_header != NULL)\<close>, lines 321 to 374.\<close>

definition udp_part :: "divert_h \<Rightarrow> received \<Rightarrow> collab \<Rightarrow> state \<Rightarrow> error + state \<times> out list" where
  "udp_part h r x s =
     (case udp_header r of
        None \<Rightarrow> Inr (s, [])
      | Some udpv \<Rightarrow>
         (case (case ip_header r of
                  None \<Rightarrow> Inr (s, [])
                | Some ipv \<Rightarrow> dnr_branch h r x ipv s) of
            Inl e \<Rightarrow> Inl e
          | Inr (s, o1) \<Rightarrow>
             (case (case ipv6_header r of
                      None \<Rightarrow> Inr (s, [])
                    | Some ip6v \<Rightarrow> dnrv6_branch h r x ip6v s) of
                Inl e \<Rightarrow> Inl e
              | Inr (s, o2) \<Rightarrow> Inr (s, o1 @ o2))))"

fun loop_body :: "divert_h \<Rightarrow> event \<Rightarrow> state \<Rightarrow> error + state \<times> out list" where
  "loop_body h RecvFailed s = Inr (s, [Stderr ''warning: failed to read packet''])"
| "loop_body h (Recv r x) s =
     (if ip_header r = None \<and> ipv6_header r = None then Inr (s, [])
      else
        let (s, o1) = tcp_part h r x s
        in case udp_part h r x s of
             Inl e \<Rightarrow> Inl e
           | Inr (s, o2) \<Rightarrow> Inr (s, o1 @ o2))"

text \<open>
  The loop \<^verbatim>\<open>while (TRUE)\<close> never ends by itself; \<open>run\<close> is the program after the device
  has answered the receive calls with the given events, in order.
\<close>

fun run :: "divert_h \<Rightarrow> event list \<Rightarrow> state \<Rightarrow> error + state \<times> out list" where
  "run h [] s = Inr (s, [])"
| "run h (e # es) s =
     (case loop_body h e s of
        Inl err \<Rightarrow> Inl err
      | Inr (s, o1) \<Rightarrow>
         (case run h es s of
            Inl err \<Rightarrow> Inl err
          | Inr (s, o2) \<Rightarrow> Inr (s, o1 @ o2)))"

subsection \<open>The entry point\<close>

text \<open>
  The local arrays and structs of \<^verbatim>\<open>main\<close> are not initialised; their first contents
  are a parameter.
\<close>

record uninit =
  reset0 :: TCPPACKET
  dnr0 :: ICMPPACKET
  dnr0_bytes :: "nat \<Rightarrow> UINT8"
  resetv6_0 :: TCPV6PACKET
  dnrv6_0 :: ICMPV6PACKET
  dnrv6_0_bytes :: "nat \<Rightarrow> UINT8"
  filter0 :: "nat \<Rightarrow> char"

text \<open>Lines 144 to 157.\<close>

definition init_packets :: "divert_h \<Rightarrow> uninit \<Rightarrow> state" where
  "init_packets h u =
     (let reset = PacketIpTcpInit h (reset0 u);
          reset = tcp_update (tcp_Rst_update (\<lambda>_. 1)) reset;
          reset = tcp_update (tcp_Ack_update (\<lambda>_. 1)) reset;
          dnr = PacketIpIcmpInit ((dnr0 u)\<lparr>data := map (dnr0_bytes u) [0..<dnr_data_size]\<rparr>);
          dnr = icmp_update (icmp_Type_update (\<lambda>_. 3)) dnr;
          dnr = icmp_update (icmp_Code_update (\<lambda>_. 3)) dnr;
          resetv6 = PacketIpv6TcpInit (resetv6_0 u);
          resetv6 = tcp6_update (tcp_Rst_update (\<lambda>_. 1)) resetv6;
          resetv6 = tcp6_update (tcp_Ack_update (\<lambda>_. 1)) resetv6;
          dnrv6 = PacketIpv6Icmpv6Init
                    ((dnrv6_0 u)\<lparr>data6 := map (dnrv6_0_bytes u) [0..<dnrv6_data_size]\<rparr>);
          dnrv6 = iheader6_update (ipv6_update (ipv6_Length_update
                    (\<lambda>_. htons (ucast (sizeof_DIVERT_ICMPV6HDR h + 4 +
                                        sizeof_DIVERT_IPV6HDR + sizeof_DIVERT_TCPHDR))))) dnrv6;
          dnrv6 = icmpv6_update (icmpv6_Type_update (\<lambda>_. 1)) dnrv6;
          dnrv6 = icmpv6_update (icmpv6_Code_update (\<lambda>_. 4)) dnrv6
      in \<lparr>reset = reset, dnr = dnr, resetv6 = resetv6, dnrv6 = dnrv6\<rparr>)"

text \<open>
  The answer of \<^verbatim>\<open>DivertOpen\<close>: a handle, or \<^verbatim>\<open>INVALID_HANDLE_VALUE\<close> with the value
  of \<^verbatim>\<open>GetLastError()\<close>.
\<close>

datatype open_result = Handle | InvalidHandle UINT32

definition ERROR_INVALID_PARAMETER :: UINT32 where
  "ERROR_INVALID_PARAMETER = 87"

datatype outcome = Exit int | Looping state | Undefined error

definition main ::
  "divert_h \<Rightarrow> uninit \<Rightarrow> string list \<Rightarrow> open_result \<Rightarrow> event list \<Rightarrow> out list \<times> outcome" where
  "main h u args opened evs =
     (case build_filter args (map (filter0 u) [0..<MAXBUF]) of
        Inl FilterTooLong \<Rightarrow> ([Stderr ''error: filter too long''], Exit EXIT_FAILURE)
      | Inr filter_buf \<Rightarrow>
         (let s = init_packets h u;
              o0 = [DivertOpen (c_string filter_buf)]
          in case opened of
               InvalidHandle e \<Rightarrow>
                 if e = ERROR_INVALID_PARAMETER
                 then (o0 @ [Stderr ''error: filter syntax error''], Exit EXIT_FAILURE)
                 else (o0 @ [StderrCode ''error: failed to open Divert device (%d)'' e],
                       Exit EXIT_FAILURE)
             | Handle \<Rightarrow>
                (case run h evs s of
                   Inl err \<Rightarrow> (o0, Undefined err)
                 | Inr (s, os) \<Rightarrow> (o0 @ os, Looping s))))"

subsection \<open>Reading the output\<close>

text \<open>The buffers handed to \<^verbatim>\<open>DivertSend\<close>, with the lengths passed, by kind of response.\<close>

fun sent_reset :: "out list \<Rightarrow> (TCPPACKET \<times> UINT) list" where
  "sent_reset [] = []"
| "sent_reset (DivertSend (Reset p) n # os) = (p, n) # sent_reset os"
| "sent_reset (_ # os) = sent_reset os"

fun sent_resetv6 :: "out list \<Rightarrow> (TCPV6PACKET \<times> UINT) list" where
  "sent_resetv6 [] = []"
| "sent_resetv6 (DivertSend (ResetV6 p) n # os) = (p, n) # sent_resetv6 os"
| "sent_resetv6 (_ # os) = sent_resetv6 os"

fun sent_dnr :: "out list \<Rightarrow> (ICMPPACKET \<times> UINT) list" where
  "sent_dnr [] = []"
| "sent_dnr (DivertSend (Dnr p) n # os) = (p, n) # sent_dnr os"
| "sent_dnr (_ # os) = sent_dnr os"

fun sent_dnrv6 :: "out list \<Rightarrow> (ICMPV6PACKET \<times> UINT) list" where
  "sent_dnrv6 [] = []"
| "sent_dnrv6 (DivertSend (DnrV6 p) n # os) = (p, n) # sent_dnrv6 os"
| "sent_dnrv6 (_ # os) = sent_dnrv6 os"

text \<open>The filter strings handed to \<^verbatim>\<open>DivertOpen\<close>.\<close>

fun opened_with :: "out list \<Rightarrow> string list" where
  "opened_with [] = []"
| "opened_with (DivertOpen f # os) = f # opened_with os"
| "opened_with (_ # os) = opened_with os"

subsection \<open>The fields that the pre-fabricated packets keep\<close>

definition ip_fixed :: "UINT8 \<Rightarrow> DIVERT_IPHDR \<Rightarrow> bool" where
  "ip_fixed proto i \<longleftrightarrow>
     ip_Version i = 4 \<and> ip_HdrLength i = 5 \<and> ip_TTL i = 64 \<and> ip_Id i = ntohs 0xDEAD \<and>
     ip_Protocol i = proto"

definition ipv6_fixed :: "UINT8 \<Rightarrow> DIVERT_IPV6HDR \<Rightarrow> bool" where
  "ipv6_fixed next i \<longleftrightarrow>
     ipv6_Version i = 6 \<and> ipv6_HopLimit i = 64 \<and> ipv6_NextHdr i = next"

definition tcp_fixed :: "DIVERT_TCPHDR \<Rightarrow> bool" where
  "tcp_fixed t \<longleftrightarrow> tcp_HdrLength t = 5 \<and> tcp_Rst t = 1 \<and> tcp_Ack t = 1"

definition templates_fixed :: "state \<Rightarrow> bool" where
  "templates_fixed s \<longleftrightarrow>
     ip_fixed IPPROTO_TCP (ip (header (reset s))) \<and> tcp_fixed (tcp (reset s)) \<and>
     ip_fixed IPPROTO_ICMP (ip (iheader (dnr s))) \<and>
     icmp_Type (icmp (dnr s)) = 3 \<and> icmp_Code (icmp (dnr s)) = 3 \<and>
     ipv6_fixed IPPROTO_TCP (ipv6 (header6 (resetv6 s))) \<and> tcp_fixed (tcp6 (resetv6 s)) \<and>
     ipv6_fixed IPPROTO_ICMPV6 (ipv6 (iheader6 (dnrv6 s))) \<and>
     icmpv6_Type (icmpv6 (dnrv6 s)) = 1 \<and> icmpv6_Code (icmpv6 (dnrv6 s)) = 4"

subsection \<open>The specification's wording of the filter string\<close>

text \<open>
  The arguments "concatenated with single spaces": one space between consecutive
  arguments and nothing else.
\<close>

fun joined :: "string list \<Rightarrow> string" where
  "joined [] = []"
| "joined [a] = a"
| "joined (a # b # as) = a @ CHR '' '' # joined (b # as)"

text \<open>Each argument followed by one space.\<close>

definition spaced :: "string list \<Rightarrow> string" where
  "spaced args = concat (map (\<lambda>a. a @ [CHR '' '']) args)"

subsection \<open>Concrete inputs\<close>

text \<open>
  A set of declarations for \<^verbatim>\<open>divert.h\<close>: an envelope of twelve bytes, ICMP and ICMPv6
  headers of eight bytes (type, code, checksum and a 32-bit body) and 0 for the outbound
  direction.
\<close>

definition sample_h :: divert_h where
  "sample_h = \<lparr>sizeof_DIVERT_PACKET = 12, sizeof_DIVERT_ICMPHDR = 8,
     sizeof_DIVERT_ICMPV6HDR = 8, DIVERT_PACKET_DIRECTION_OUTBOUND = 0\<rparr>"

definition sample_uninit :: uninit where
  "sample_uninit =
     \<lparr>reset0 = \<lparr>header = \<lparr>divert = zero_DIVERT_PACKET, ip = zero_IPHDR\<rparr>, tcp = zero_TCPHDR\<rparr>,
      dnr0 = \<lparr>iheader = \<lparr>divert = zero_DIVERT_PACKET, ip = zero_IPHDR\<rparr>,
               icmp = zero_ICMPHDR, data = []\<rparr>,
      dnr0_bytes = (\<lambda>_. 0xCC),
      resetv6_0 = \<lparr>header6 = \<lparr>divert6 = zero_DIVERT_PACKET, ipv6 = zero_IPV6HDR\<rparr>,
                    tcp6 = zero_TCPHDR\<rparr>,
      dnrv6_0 = \<lparr>iheader6 = \<lparr>divert6 = zero_DIVERT_PACKET, ipv6 = zero_IPV6HDR\<rparr>,
                  icmpv6 = zero_ICMPV6HDR, data6 = []\<rparr>,
      dnrv6_0_bytes = (\<lambda>_. 0xCC),
      filter0 = (\<lambda>_. CHR ''?'')\<rparr>"

definition sample_collab :: collab where
  "sample_collab = \<lparr>sums_reset = (0x1111, 0x2222), sums_resetv6 = 0x3333,
     sums_dnr = (0x4444, 0x5555), sums_dnrv6 = 0x6666,
     send_reset_ok = True, send_resetv6_ok = True, send_dnr_ok = True, send_dnrv6_ok = True,
     last_error = 0\<rparr>"

text \<open>Byte \<open>i\<close> of the sample receive buffer is \<open>i mod 256\<close>.\<close>

definition sample_packet :: "UINT8 list" where
  "sample_packet = map of_nat [0..<MAXBUF]"

definition sample_ip :: "UINT8 \<Rightarrow> DIVERT_IPHDR view" where
  "sample_ip proto = \<lparr>view_off = 12, view_hdr =
     \<lparr>ip_HdrLength = 5, ip_Version = 4, ip_Length = htons 60, ip_Id = 7, ip_TTL = 128,
      ip_Protocol = proto, ip_Checksum = 0,
      ip_SrcAddr = htonl 0x0A000001, ip_DstAddr = htonl 0x0A000002\<rparr>\<rparr>"

definition sample_ipv6 :: "UINT8 \<Rightarrow> DIVERT_IPV6HDR view" where
  "sample_ipv6 next = \<lparr>view_off = 12, view_hdr =
     \<lparr>ipv6_Version = 6, ipv6_Length = htons 20, ipv6_NextHdr = next, ipv6_HopLimit = 128,
      ipv6_SrcAddr = [1, 2, 3, 4], ipv6_DstAddr = [5, 6, 7, 8]\<rparr>\<rparr>"

text \<open>A SYN segment with sequence number 1000 (SYN=1, ACK=0).\<close>

definition sample_syn :: "DIVERT_TCPHDR view" where
  "sample_syn = \<lparr>view_off = 32, view_hdr =
     \<lparr>tcp_SrcPort = htons 40000, tcp_DstPort = htons 80, tcp_SeqNum = htonl 1000,
      tcp_AckNum = 0, tcp_HdrLength = 5, tcp_Fin = 0, tcp_Syn = 1, tcp_Rst = 0, tcp_Psh = 0,
      tcp_Ack = 0, tcp_Urg = 0, tcp_Window = htons 8192, tcp_Checksum = 0\<rparr>\<rparr>"

text \<open>A data segment with sequence number 500 and acknowledgment number 2000 (SYN=0, ACK=1).\<close>

definition sample_ack :: "DIVERT_TCPHDR view" where
  "sample_ack = \<lparr>view_off = 32, view_hdr =
     \<lparr>tcp_SrcPort = htons 40000, tcp_DstPort = htons 80, tcp_SeqNum = htonl 500,
      tcp_AckNum = htonl 2000, tcp_HdrLength = 5, tcp_Fin = 0, tcp_Syn = 0, tcp_Rst = 0,
      tcp_Psh = 1, tcp_Ack = 1, tcp_Urg = 0, tcp_Window = htons 8192, tcp_Checksum = 0\<rparr>\<rparr>"

definition sample_udp :: "DIVERT_UDPHDR view" where
  "sample_udp = \<lparr>view_off = 32, view_hdr =
     \<lparr>udp_SrcPort = htons 40000, udp_DstPort = htons 53, udp_Length = htons 40,
      udp_Checksum = 0\<rparr>\<rparr>"

definition sample_received :: "UINT8 \<Rightarrow> received" where
  "sample_received dir = \<lparr>ppacket = \<lparr>IfIdx = 3, SubIfIdx = 1, Direction = dir\<rparr>,
     packet = sample_packet, ip_header = None, ipv6_header = None, icmp_header = None,
     icmpv6_header = None, tcp_header = None, udp_header = None, payload_len = 0\<rparr>"

definition rcv_syn_v4 :: received where
  "rcv_syn_v4 = (sample_received 1)\<lparr>ip_header := Some (sample_ip IPPROTO_TCP),
     tcp_header := Some sample_syn\<rparr>"

definition rcv_ack_v6 :: received where
  "rcv_ack_v6 = (sample_received 0)\<lparr>ipv6_header := Some (sample_ipv6 IPPROTO_TCP),
     tcp_header := Some sample_ack, payload_len := 40\<rparr>"

definition rcv_udp_v4 :: "UINT8 \<Rightarrow> received" where
  "rcv_udp_v4 dir = (sample_received dir)\<lparr>ip_header := Some (sample_ip 17),
     udp_header := Some sample_udp, payload_len := 32\<rparr>"

definition rcv_udp_v6 :: "UINT8 \<Rightarrow> received" where
  "rcv_udp_v6 dir = (sample_received dir)\<lparr>ipv6_header := Some (sample_ipv6 17),
     udp_header := Some sample_udp, payload_len := 32\<rparr>"

text \<open>The state in which the loop is entered, for the sample declarations.\<close>

definition sample_s0 :: state where
  "sample_s0 = init_packets sample_h sample_uninit"

text \<open>
  An event whose copies read inside the receive buffer: the header pointers of a UDP
  packet leave room for the bytes that the two ICMP branches copy.
\<close>

definition reads_in_bounds :: "event \<Rightarrow> bool" where
  "reads_in_bounds e =
     (case e of
        RecvFailed \<Rightarrow> True
      | Recv r x \<Rightarrow>
         (if udp_header r = None then True
          else (case ip_header r of
                  None \<Rightarrow> True
                | Some ipv \<Rightarrow>
                    view_off ipv + (unat (ip_HdrLength (view_hdr ipv)) * 4 + 8)
                      \<le> length (packet r)) \<and>
               (case ipv6_header r of
                  None \<Rightarrow> True
                | Some ip6v \<Rightarrow> view_off ip6v + 60 \<le> length (packet r))))"

section \<open>Properties of the embedding\<close>

subsection \<open>Byte order\<close>

lemma ntohs_htons: "ntohs (htons x) = x"
  unfolding ntohs_def htons_def
  by (rule bit_word_eqI) (auto simp: bit_simps)

lemma htonl_bit:
  "bit (htonl x) n \<longleftrightarrow>
     (n < 8 \<and> bit x (n + 24)) \<or> (8 \<le> n \<and> n < 16 \<and> bit x (n + 8)) \<or>
     (16 \<le> n \<and> n < 24 \<and> bit x (n - 8)) \<or> (24 \<le> n \<and> n < 32 \<and> bit x (n - 24))"
  unfolding htonl_def
  apply (simp add: bit_simps)
  apply (auto simp: add.commute dest: bit_imp_le_length)
  done

lemma ntohl_eq_htonl: "ntohl x = htonl x"
  by (simp add: ntohl_def htonl_def)

lemma ntohl_htonl: "ntohl (htonl x) = x"
proof (rule bit_word_eqI)
  fix n assume "n < LENGTH(32)"
  then consider "n < 8" | "8 \<le> n" "n < 16" | "16 \<le> n" "n < 24" | "24 \<le> n" "n < 32"
    by fastforce
  then show "bit (ntohl (htonl x)) n = bit x n"
    by cases (auto simp: ntohl_eq_htonl htonl_bit)
qed

subsection \<open>Output\<close>

lemma sent_reset_append: "sent_reset (a @ b) = sent_reset a @ sent_reset b"
  by (induction a rule: sent_reset.induct) simp_all

lemma sent_resetv6_append: "sent_resetv6 (a @ b) = sent_resetv6 a @ sent_resetv6 b"
  by (induction a rule: sent_resetv6.induct) simp_all

lemma sent_dnr_append: "sent_dnr (a @ b) = sent_dnr a @ sent_dnr b"
  by (induction a rule: sent_dnr.induct) simp_all

lemma sent_dnrv6_append: "sent_dnrv6 (a @ b) = sent_dnrv6 a @ sent_dnrv6 b"
  by (induction a rule: sent_dnrv6.induct) simp_all

lemmas sent_append = sent_reset_append sent_resetv6_append sent_dnr_append sent_dnrv6_append

subsection \<open>The TCP block\<close>

lemma reset_branch_state:
  "fst (reset_branch h r x i t s) =
     s\<lparr>reset := CalcChecksums_reset (sums_reset x) (fill_reset r i t (reset s))\<rparr>"
  by (simp add: reset_branch_def Let_def)

lemma reset_branch_sent:
  "sent_reset (snd (reset_branch h r x i t s)) =
     [(CalcChecksums_reset (sums_reset x) (fill_reset r i t (reset s)), sizeof_TCPPACKET h)]"
  "sent_resetv6 (snd (reset_branch h r x i t s)) = []"
  "sent_dnr (snd (reset_branch h r x i t s)) = []"
  "sent_dnrv6 (snd (reset_branch h r x i t s)) = []"
  by (simp_all add: reset_branch_def Let_def)

lemma resetv6_branch_state:
  "fst (resetv6_branch h r x i t s) =
     s\<lparr>resetv6 := CalcChecksums_resetv6 (sums_resetv6 x) (fill_resetv6 r i t (resetv6 s))\<rparr>"
  by (simp add: resetv6_branch_def Let_def)

lemma resetv6_branch_sent:
  "sent_resetv6 (snd (resetv6_branch h r x i t s)) =
     [(CalcChecksums_resetv6 (sums_resetv6 x) (fill_resetv6 r i t (resetv6 s)),
       sizeof_TCPV6PACKET h)]"
  "sent_reset (snd (resetv6_branch h r x i t s)) = []"
  "sent_dnr (snd (resetv6_branch h r x i t s)) = []"
  "sent_dnrv6 (snd (resetv6_branch h r x i t s)) = []"
  by (simp_all add: resetv6_branch_def Let_def)

lemma tcp_part_state:
  "reset (fst (tcp_part h r x s)) =
     (case tcp_header r of None \<Rightarrow> reset s | Some tcpv \<Rightarrow>
        (case ip_header r of None \<Rightarrow> reset s | Some ipv \<Rightarrow>
           CalcChecksums_reset (sums_reset x)
             (fill_reset r (view_hdr ipv) (view_hdr tcpv) (reset s))))"
  "resetv6 (fst (tcp_part h r x s)) =
     (case tcp_header r of None \<Rightarrow> resetv6 s | Some tcpv \<Rightarrow>
        (case ipv6_header r of None \<Rightarrow> resetv6 s | Some ip6v \<Rightarrow>
           CalcChecksums_resetv6 (sums_resetv6 x)
             (fill_resetv6 r (view_hdr ip6v) (view_hdr tcpv) (resetv6 s))))"
  "dnr (fst (tcp_part h r x s)) = dnr s"
  "dnrv6 (fst (tcp_part h r x s)) = dnrv6 s"
  by (simp_all add: tcp_part_def Let_def reset_branch_state resetv6_branch_state
      split_beta split: option.splits)

lemma tcp_part_sent:
  "sent_reset (snd (tcp_part h r x s)) =
     (case tcp_header r of None \<Rightarrow> [] | Some tcpv \<Rightarrow>
        (case ip_header r of None \<Rightarrow> [] | Some ipv \<Rightarrow>
           [(reset (fst (tcp_part h r x s)), sizeof_TCPPACKET h)]))"
  "sent_resetv6 (snd (tcp_part h r x s)) =
     (case tcp_header r of None \<Rightarrow> [] | Some tcpv \<Rightarrow>
        (case ipv6_header r of None \<Rightarrow> [] | Some ip6v \<Rightarrow>
           [(resetv6 (fst (tcp_part h r x s)), sizeof_TCPV6PACKET h)]))"
  "sent_dnr (snd (tcp_part h r x s)) = []"
  "sent_dnrv6 (snd (tcp_part h r x s)) = []"
  by (simp_all add: tcp_part_def Let_def reset_branch_state resetv6_branch_state
      reset_branch_sent resetv6_branch_sent sent_append
      split_beta split: option.splits)

subsection \<open>The UDP block\<close>

lemma dnr_branch_Inr:
  assumes "dnr_branch h r x ipv s = Inr (s', os)"
  shows "\<exists>d. memcpy (data (dnr s)) (packet r) (view_off ipv)
                (unat (ucast (ip_HdrLength (view_hdr ipv)) * sizeof_UINT32 + 8 :: UINT)) = Inr d \<and>
             s' = s\<lparr>dnr := CalcChecksums_dnr (sums_dnr x)
                    (fill_dnr h r (view_hdr ipv)
                       (ucast (ip_HdrLength (view_hdr ipv)) * sizeof_UINT32 + 8 + sizeof_ICMPPACKET h)
                       ((dnr s)\<lparr>data := d\<rparr>))\<rparr> \<and>
             sent_dnr os = [(dnr s', ucast (ip_HdrLength (view_hdr ipv)) * sizeof_UINT32 + 8 + sizeof_ICMPPACKET h)] \<and>
             sent_reset os = [] \<and> sent_resetv6 os = [] \<and> sent_dnrv6 os = []"
  using assms by (auto simp: dnr_branch_def Let_def split: sum.splits)

lemma dnrv6_branch_Inr:
  assumes "dnrv6_branch h r x ip6v s = Inr (s', os)"
  shows "\<exists>d. memcpy (data6 (dnrv6 s)) (packet r) (view_off ip6v)
                (unat (sizeof_DIVERT_IPV6HDR + sizeof_DIVERT_TCPHDR)) = Inr d \<and>
             s' = s\<lparr>dnrv6 := CalcChecksums_dnrv6 (sums_dnrv6 x)
                    (fill_dnrv6 h r (view_hdr ip6v) ((dnrv6 s)\<lparr>data6 := d\<rparr>))\<rparr> \<and>
             sent_dnrv6 os = [(dnrv6 s', sizeof_DIVERT_IPV6HDR + sizeof_DIVERT_TCPHDR + sizeof_ICMPV6PACKET h)] \<and>
             sent_reset os = [] \<and> sent_resetv6 os = [] \<and> sent_dnr os = []"
  using assms by (auto simp: dnrv6_branch_def Let_def split: sum.splits)


lemma udp_part_tcp_frame:
  assumes "udp_part h r x s = Inr (s', os)"
  shows "reset s' = reset s" "resetv6 s' = resetv6 s" "sent_reset os = []" "sent_resetv6 os = []"
  using assms
  by (auto simp: udp_part_def sent_append split: option.splits sum.splits
      dest!: dnr_branch_Inr dnrv6_branch_Inr)

lemma udp_part_dnr:
  assumes "udp_part h r x s = Inr (s', os)" "udp_header r = Some udpv" "ip_header r = Some ipv"
  shows "\<exists>d. memcpy (data (dnr s)) (packet r) (view_off ipv)
                (unat (ucast (ip_HdrLength (view_hdr ipv)) * sizeof_UINT32 + 8 :: UINT)) = Inr d \<and>
             dnr s' = CalcChecksums_dnr (sums_dnr x)
                    (fill_dnr h r (view_hdr ipv)
                       (ucast (ip_HdrLength (view_hdr ipv)) * sizeof_UINT32 + 8 + sizeof_ICMPPACKET h)
                       ((dnr s)\<lparr>data := d\<rparr>)) \<and>
             sent_dnr os = [(dnr s', ucast (ip_HdrLength (view_hdr ipv)) * sizeof_UINT32 + 8 + sizeof_ICMPPACKET h)]"
  using assms
  by (auto simp: udp_part_def sent_append split: option.splits sum.splits
      dest!: dnr_branch_Inr dnrv6_branch_Inr)

lemma udp_part_dnrv6:
  assumes "udp_part h r x s = Inr (s', os)" "udp_header r = Some udpv" "ipv6_header r = Some ip6v"
  shows "\<exists>d. memcpy (data6 (dnrv6 s)) (packet r) (view_off ip6v)
                (unat (sizeof_DIVERT_IPV6HDR + sizeof_DIVERT_TCPHDR)) = Inr d \<and>
             dnrv6 s' = CalcChecksums_dnrv6 (sums_dnrv6 x)
                    (fill_dnrv6 h r (view_hdr ip6v) ((dnrv6 s)\<lparr>data6 := d\<rparr>)) \<and>
             sent_dnrv6 os = [(dnrv6 s', sizeof_DIVERT_IPV6HDR + sizeof_DIVERT_TCPHDR + sizeof_ICMPV6PACKET h)]"
  using assms
  by (auto simp: udp_part_def sent_append split: option.splits sum.splits
      dest!: dnr_branch_Inr dnrv6_branch_Inr)

lemma udp_part_unchanged:
  assumes "udp_part h r x s = Inr (s', os)"
  shows "udp_header r = None \<or> ip_header r = None \<Longrightarrow> dnr s' = dnr s \<and> sent_dnr os = []"
    and "udp_header r = None \<or> ipv6_header r = None \<Longrightarrow> dnrv6 s' = dnrv6 s \<and> sent_dnrv6 os = []"
  using assms
  by (auto simp: udp_part_def sent_append split: option.splits sum.splits
      dest!: dnr_branch_Inr dnrv6_branch_Inr)

subsection \<open>One iteration\<close>

lemma loop_body_Recv:
  assumes "loop_body h (Recv r x) s = Inr (s', os)" "ip_header r \<noteq> None \<or> ipv6_header r \<noteq> None"
  shows "\<exists>o2. udp_part h r x (fst (tcp_part h r x s)) = Inr (s', o2) \<and>
              os = snd (tcp_part h r x s) @ o2"
  using assms by (auto simp: split_beta Let_def split: sum.splits if_splits)

lemma loop_body_reset:
  assumes "loop_body h (Recv r x) s = Inr (s', os)"
    and "tcp_header r = Some tcpv" "ip_header r = Some ipv"
  shows "reset s' = CalcChecksums_reset (sums_reset x)
                      (fill_reset r (view_hdr ipv) (view_hdr tcpv) (reset s))"
    and "sent_reset os = [(reset s', sizeof_TCPPACKET h)]"
proof -
  from assms obtain o2 where u: "udp_part h r x (fst (tcp_part h r x s)) = Inr (s', o2)"
    and os: "os = snd (tcp_part h r x s) @ o2"
    using loop_body_Recv by blast
  show "reset s' = CalcChecksums_reset (sums_reset x)
                      (fill_reset r (view_hdr ipv) (view_hdr tcpv) (reset s))"
    using udp_part_tcp_frame(1) [OF u] assms(2,3) by (simp add: tcp_part_state)
  show "sent_reset os = [(reset s', sizeof_TCPPACKET h)]"
    using udp_part_tcp_frame(1,3) [OF u] assms(2,3) os
    by (simp add: sent_append tcp_part_sent)
qed

lemma loop_body_resetv6:
  assumes "loop_body h (Recv r x) s = Inr (s', os)"
    and "tcp_header r = Some tcpv" "ipv6_header r = Some ip6v"
  shows "resetv6 s' = CalcChecksums_resetv6 (sums_resetv6 x)
                      (fill_resetv6 r (view_hdr ip6v) (view_hdr tcpv) (resetv6 s))"
    and "sent_resetv6 os = [(resetv6 s', sizeof_TCPV6PACKET h)]"
proof -
  from assms obtain o2 where u: "udp_part h r x (fst (tcp_part h r x s)) = Inr (s', o2)"
    and os: "os = snd (tcp_part h r x s) @ o2"
    using loop_body_Recv by blast
  show "resetv6 s' = CalcChecksums_resetv6 (sums_resetv6 x)
                      (fill_resetv6 r (view_hdr ip6v) (view_hdr tcpv) (resetv6 s))"
    using udp_part_tcp_frame(2) [OF u] assms(2,3) by (simp add: tcp_part_state)
  show "sent_resetv6 os = [(resetv6 s', sizeof_TCPV6PACKET h)]"
    using udp_part_tcp_frame(2,4) [OF u] assms(2,3) os
    by (simp add: sent_append tcp_part_sent)
qed

lemma loop_body_dnr:
  assumes "loop_body h (Recv r x) s = Inr (s', os)"
    and "udp_header r = Some udpv" "ip_header r = Some ipv"
  shows "\<exists>d. memcpy (data (dnr s)) (packet r) (view_off ipv)
                (unat (ucast (ip_HdrLength (view_hdr ipv)) * sizeof_UINT32 + 8 :: UINT)) = Inr d \<and>
             dnr s' = CalcChecksums_dnr (sums_dnr x)
                    (fill_dnr h r (view_hdr ipv)
                       (ucast (ip_HdrLength (view_hdr ipv)) * sizeof_UINT32 + 8 + sizeof_ICMPPACKET h)
                       ((dnr s)\<lparr>data := d\<rparr>)) \<and>
             sent_dnr os = [(dnr s', ucast (ip_HdrLength (view_hdr ipv)) * sizeof_UINT32 + 8 + sizeof_ICMPPACKET h)]"
proof -
  from assms obtain o2 where u: "udp_part h r x (fst (tcp_part h r x s)) = Inr (s', o2)"
    and os: "os = snd (tcp_part h r x s) @ o2"
    using loop_body_Recv by blast
  show ?thesis
    using udp_part_dnr [OF u assms(2,3)] os
    by (simp add: sent_append tcp_part_sent tcp_part_state)
qed

lemma loop_body_dnrv6:
  assumes "loop_body h (Recv r x) s = Inr (s', os)"
    and "udp_header r = Some udpv" "ipv6_header r = Some ip6v"
  shows "\<exists>d. memcpy (data6 (dnrv6 s)) (packet r) (view_off ip6v)
                (unat (sizeof_DIVERT_IPV6HDR + sizeof_DIVERT_TCPHDR)) = Inr d \<and>
             dnrv6 s' = CalcChecksums_dnrv6 (sums_dnrv6 x)
                    (fill_dnrv6 h r (view_hdr ip6v) ((dnrv6 s)\<lparr>data6 := d\<rparr>)) \<and>
             sent_dnrv6 os = [(dnrv6 s', sizeof_DIVERT_IPV6HDR + sizeof_DIVERT_TCPHDR + sizeof_ICMPV6PACKET h)]"
proof -
  from assms obtain o2 where u: "udp_part h r x (fst (tcp_part h r x s)) = Inr (s', o2)"
    and os: "os = snd (tcp_part h r x s) @ o2"
    using loop_body_Recv by blast
  show ?thesis
    using udp_part_dnrv6 [OF u assms(2,3)] os
    by (simp add: sent_append tcp_part_sent tcp_part_state)
qed

subsection \<open>Field values after synthesis\<close>

lemma fill_reset_fields:
  "IfIdx (divert (header (fill_reset r i t p))) = IfIdx (ppacket r)"
  "SubIfIdx (divert (header (fill_reset r i t p))) = SubIfIdx (ppacket r)"
  "Direction (divert (header (fill_reset r i t p))) = lnot (Direction (ppacket r))"
  "ip_SrcAddr (ip (header (fill_reset r i t p))) = ip_DstAddr i"
  "ip_DstAddr (ip (header (fill_reset r i t p))) = ip_SrcAddr i"
  "tcp_SrcPort (tcp (fill_reset r i t p)) = tcp_DstPort t"
  "tcp_DstPort (tcp (fill_reset r i t p)) = tcp_SrcPort t"
  "tcp_SeqNum (tcp (fill_reset r i t p)) = (if tcp_Ack t \<noteq> 0 then tcp_AckNum t else 0)"
  "tcp_AckNum (tcp (fill_reset r i t p)) =
     htonl (ntohl (tcp_SeqNum t) + (if tcp_Syn t \<noteq> 0 then 1 else payload_len r))"
  by (simp_all add: fill_reset_def Let_def)

lemma fill_reset_kept:
  "ip_Version (ip (header (fill_reset r i t p))) = ip_Version (ip (header p))"
  "ip_HdrLength (ip (header (fill_reset r i t p))) = ip_HdrLength (ip (header p))"
  "ip_TTL (ip (header (fill_reset r i t p))) = ip_TTL (ip (header p))"
  "ip_Id (ip (header (fill_reset r i t p))) = ip_Id (ip (header p))"
  "ip_Protocol (ip (header (fill_reset r i t p))) = ip_Protocol (ip (header p))"
  "ip_Length (ip (header (fill_reset r i t p))) = ip_Length (ip (header p))"
  "tcp_HdrLength (tcp (fill_reset r i t p)) = tcp_HdrLength (tcp p)"
  "tcp_Rst (tcp (fill_reset r i t p)) = tcp_Rst (tcp p)"
  "tcp_Ack (tcp (fill_reset r i t p)) = tcp_Ack (tcp p)"
  by (simp_all add: fill_reset_def Let_def)

lemma CalcChecksums_reset_fields:
  "divert (header (CalcChecksums_reset c p)) = divert (header p)"
  "ip_SrcAddr (ip (header (CalcChecksums_reset c p))) = ip_SrcAddr (ip (header p))"
  "ip_DstAddr (ip (header (CalcChecksums_reset c p))) = ip_DstAddr (ip (header p))"
  "ip_Version (ip (header (CalcChecksums_reset c p))) = ip_Version (ip (header p))"
  "ip_HdrLength (ip (header (CalcChecksums_reset c p))) = ip_HdrLength (ip (header p))"
  "ip_TTL (ip (header (CalcChecksums_reset c p))) = ip_TTL (ip (header p))"
  "ip_Id (ip (header (CalcChecksums_reset c p))) = ip_Id (ip (header p))"
  "ip_Protocol (ip (header (CalcChecksums_reset c p))) = ip_Protocol (ip (header p))"
  "ip_Length (ip (header (CalcChecksums_reset c p))) = ip_Length (ip (header p))"
  "tcp_SrcPort (tcp (CalcChecksums_reset c p)) = tcp_SrcPort (tcp p)"
  "tcp_DstPort (tcp (CalcChecksums_reset c p)) = tcp_DstPort (tcp p)"
  "tcp_SeqNum (tcp (CalcChecksums_reset c p)) = tcp_SeqNum (tcp p)"
  "tcp_AckNum (tcp (CalcChecksums_reset c p)) = tcp_AckNum (tcp p)"
  "tcp_HdrLength (tcp (CalcChecksums_reset c p)) = tcp_HdrLength (tcp p)"
  "tcp_Rst (tcp (CalcChecksums_reset c p)) = tcp_Rst (tcp p)"
  "tcp_Ack (tcp (CalcChecksums_reset c p)) = tcp_Ack (tcp p)"
  by (simp_all add: CalcChecksums_reset_def)

lemma fill_resetv6_fields:
  "IfIdx (divert6 (header6 (fill_resetv6 r i t p))) = IfIdx (ppacket r)"
  "SubIfIdx (divert6 (header6 (fill_resetv6 r i t p))) = SubIfIdx (ppacket r)"
  "Direction (divert6 (header6 (fill_resetv6 r i t p))) = lnot (Direction (ppacket r))"
  "ipv6_SrcAddr (ipv6 (header6 (fill_resetv6 r i t p))) = ipv6_DstAddr i"
  "ipv6_DstAddr (ipv6 (header6 (fill_resetv6 r i t p))) = ipv6_SrcAddr i"
  "tcp_SrcPort (tcp6 (fill_resetv6 r i t p)) = tcp_DstPort t"
  "tcp_DstPort (tcp6 (fill_resetv6 r i t p)) = tcp_SrcPort t"
  "tcp_SeqNum (tcp6 (fill_resetv6 r i t p)) = (if tcp_Ack t \<noteq> 0 then tcp_AckNum t else 0)"
  "tcp_AckNum (tcp6 (fill_resetv6 r i t p)) =
     htonl (ntohl (tcp_SeqNum t) + (if tcp_Syn t \<noteq> 0 then 1 else payload_len r))"
  by (simp_all add: fill_resetv6_def Let_def)

lemma fill_resetv6_kept:
  "ipv6_Version (ipv6 (header6 (fill_resetv6 r i t p))) = ipv6_Version (ipv6 (header6 p))"
  "ipv6_HopLimit (ipv6 (header6 (fill_resetv6 r i t p))) = ipv6_HopLimit (ipv6 (header6 p))"
  "ipv6_NextHdr (ipv6 (header6 (fill_resetv6 r i t p))) = ipv6_NextHdr (ipv6 (header6 p))"
  "ipv6_Length (ipv6 (header6 (fill_resetv6 r i t p))) = ipv6_Length (ipv6 (header6 p))"
  "tcp_HdrLength (tcp6 (fill_resetv6 r i t p)) = tcp_HdrLength (tcp6 p)"
  "tcp_Rst (tcp6 (fill_resetv6 r i t p)) = tcp_Rst (tcp6 p)"
  "tcp_Ack (tcp6 (fill_resetv6 r i t p)) = tcp_Ack (tcp6 p)"
  by (simp_all add: fill_resetv6_def Let_def)

lemma CalcChecksums_resetv6_fields:
  "header6 (CalcChecksums_resetv6 c p) = header6 p"
  "tcp_SrcPort (tcp6 (CalcChecksums_resetv6 c p)) = tcp_SrcPort (tcp6 p)"
  "tcp_DstPort (tcp6 (CalcChecksums_resetv6 c p)) = tcp_DstPort (tcp6 p)"
  "tcp_SeqNum (tcp6 (CalcChecksums_resetv6 c p)) = tcp_SeqNum (tcp6 p)"
  "tcp_AckNum (tcp6 (CalcChecksums_resetv6 c p)) = tcp_AckNum (tcp6 p)"
  "tcp_HdrLength (tcp6 (CalcChecksums_resetv6 c p)) = tcp_HdrLength (tcp6 p)"
  "tcp_Rst (tcp6 (CalcChecksums_resetv6 c p)) = tcp_Rst (tcp6 p)"
  "tcp_Ack (tcp6 (CalcChecksums_resetv6 c p)) = tcp_Ack (tcp6 p)"
  by (simp_all add: CalcChecksums_resetv6_def)

lemma fill_dnr_fields:
  "IfIdx (divert (iheader (fill_dnr h r i n p))) = IfIdx (ppacket r)"
  "SubIfIdx (divert (iheader (fill_dnr h r i n p))) = SubIfIdx (ppacket r)"
  "Direction (divert (iheader (fill_dnr h r i n p))) = DIVERT_PACKET_DIRECTION_OUTBOUND h"
  "ip_Length (ip (iheader (fill_dnr h r i n p))) = htons (ucast (n - sizeof_DIVERT_PACKET h))"
  "ip_SrcAddr (ip (iheader (fill_dnr h r i n p))) = ip_DstAddr i"
  "ip_DstAddr (ip (iheader (fill_dnr h r i n p))) = ip_SrcAddr i"
  by (simp_all add: fill_dnr_def Let_def)

lemma fill_dnr_kept:
  "ip_Version (ip (iheader (fill_dnr h r i n p))) = ip_Version (ip (iheader p))"
  "ip_HdrLength (ip (iheader (fill_dnr h r i n p))) = ip_HdrLength (ip (iheader p))"
  "ip_TTL (ip (iheader (fill_dnr h r i n p))) = ip_TTL (ip (iheader p))"
  "ip_Id (ip (iheader (fill_dnr h r i n p))) = ip_Id (ip (iheader p))"
  "ip_Protocol (ip (iheader (fill_dnr h r i n p))) = ip_Protocol (ip (iheader p))"
  "icmp (fill_dnr h r i n p) = icmp p"
  "data (fill_dnr h r i n p) = data p"
  by (simp_all add: fill_dnr_def Let_def)

lemma CalcChecksums_dnr_fields:
  "divert (iheader (CalcChecksums_dnr c p)) = divert (iheader p)"
  "ip_SrcAddr (ip (iheader (CalcChecksums_dnr c p))) = ip_SrcAddr (ip (iheader p))"
  "ip_DstAddr (ip (iheader (CalcChecksums_dnr c p))) = ip_DstAddr (ip (iheader p))"
  "ip_Version (ip (iheader (CalcChecksums_dnr c p))) = ip_Version (ip (iheader p))"
  "ip_HdrLength (ip (iheader (CalcChecksums_dnr c p))) = ip_HdrLength (ip (iheader p))"
  "ip_TTL (ip (iheader (CalcChecksums_dnr c p))) = ip_TTL (ip (iheader p))"
  "ip_Id (ip (iheader (CalcChecksums_dnr c p))) = ip_Id (ip (iheader p))"
  "ip_Protocol (ip (iheader (CalcChecksums_dnr c p))) = ip_Protocol (ip (iheader p))"
  "ip_Length (ip (iheader (CalcChecksums_dnr c p))) = ip_Length (ip (iheader p))"
  "icmp_Type (icmp (CalcChecksums_dnr c p)) = icmp_Type (icmp p)"
  "icmp_Code (icmp (CalcChecksums_dnr c p)) = icmp_Code (icmp p)"
  "data (CalcChecksums_dnr c p) = data p"
  by (simp_all add: CalcChecksums_dnr_def)

lemma fill_dnrv6_fields:
  "IfIdx (divert6 (iheader6 (fill_dnrv6 h r i p))) = IfIdx (ppacket r)"
  "SubIfIdx (divert6 (iheader6 (fill_dnrv6 h r i p))) = SubIfIdx (ppacket r)"
  "Direction (divert6 (iheader6 (fill_dnrv6 h r i p))) = DIVERT_PACKET_DIRECTION_OUTBOUND h"
  "ipv6_SrcAddr (ipv6 (iheader6 (fill_dnrv6 h r i p))) = ipv6_DstAddr i"
  "ipv6_DstAddr (ipv6 (iheader6 (fill_dnrv6 h r i p))) = ipv6_SrcAddr i"
  by (simp_all add: fill_dnrv6_def Let_def)

lemma fill_dnrv6_kept:
  "ipv6_Version (ipv6 (iheader6 (fill_dnrv6 h r i p))) = ipv6_Version (ipv6 (iheader6 p))"
  "ipv6_HopLimit (ipv6 (iheader6 (fill_dnrv6 h r i p))) = ipv6_HopLimit (ipv6 (iheader6 p))"
  "ipv6_NextHdr (ipv6 (iheader6 (fill_dnrv6 h r i p))) = ipv6_NextHdr (ipv6 (iheader6 p))"
  "ipv6_Length (ipv6 (iheader6 (fill_dnrv6 h r i p))) = ipv6_Length (ipv6 (iheader6 p))"
  "icmpv6 (fill_dnrv6 h r i p) = icmpv6 p"
  "data6 (fill_dnrv6 h r i p) = data6 p"
  by (simp_all add: fill_dnrv6_def Let_def)

lemma CalcChecksums_dnrv6_fields:
  "iheader6 (CalcChecksums_dnrv6 c p) = iheader6 p"
  "icmpv6_Type (icmpv6 (CalcChecksums_dnrv6 c p)) = icmpv6_Type (icmpv6 p)"
  "icmpv6_Code (icmpv6 (CalcChecksums_dnrv6 c p)) = icmpv6_Code (icmpv6 p)"
  "data6 (CalcChecksums_dnrv6 c p) = data6 p"
  by (simp_all add: CalcChecksums_dnrv6_def)

lemmas synth_fields = fill_reset_fields fill_reset_kept CalcChecksums_reset_fields
  fill_resetv6_fields fill_resetv6_kept CalcChecksums_resetv6_fields
  fill_dnr_fields fill_dnr_kept CalcChecksums_dnr_fields
  fill_dnrv6_fields fill_dnrv6_kept CalcChecksums_dnrv6_fields

subsection \<open>Bounds of the copies\<close>

lemma icmp_length_unat:
  "unat (ucast (hl :: 4 word) * sizeof_UINT32 + 8 :: UINT) = unat hl * 4 + 8"
proof -
  have lt: "unat hl < 16" using unsigned_less [of hl, where ?'a = nat] by simp
  then have "take_bit 32 (unat hl) = unat hl"
    by (simp add: take_bit_nat_eq_self)
  then have "unat (ucast hl :: UINT) = unat hl"
    by (simp add: unsigned_ucast_eq)
  with lt show ?thesis
    by (simp add: sizeof_UINT32_def unat_word_ariths)
qed

lemma icmp_length_le: "unat (ucast (hl :: 4 word) * sizeof_UINT32 + 8 :: UINT) < dnr_data_size"
proof -
  have "unat hl < 16" using unsigned_less [of hl, where ?'a = nat] by simp
  then show ?thesis
    unfolding icmp_length_unat by (simp add: dnr_data_size_def sizeof_UINT32_def)
qed

lemma icmpv6_length_unat: "unat (sizeof_DIVERT_IPV6HDR + sizeof_DIVERT_TCPHDR) = dnrv6_data_size"
  by (simp add: dnrv6_data_size_def sizeof_DIVERT_IPV6HDR_def sizeof_DIVERT_TCPHDR_def)

lemma memcpy_Inr:
  "memcpy dst src off n = Inr d \<Longrightarrow>
     n \<le> length dst \<and> off + n \<le> length src \<and> d = take n (drop off src) @ drop n dst"
  by (auto simp: memcpy_def split: if_splits)

lemma memcpy_length: "memcpy dst src off n = Inr d \<Longrightarrow> length d = length dst"
  by (auto simp: memcpy_def min_def split: if_splits)

lemma memcpy_defined:
  "n \<le> length dst \<Longrightarrow> off + n \<le> length src \<Longrightarrow>
     memcpy dst src off n = Inr (take n (drop off src) @ drop n dst)"
  by (simp add: memcpy_def)

lemma memcpy_write_ok: "n \<le> length dst \<Longrightarrow> memcpy dst src off n \<noteq> Inl WriteOutOfBounds"
  by (simp add: memcpy_def)


subsection \<open>What one iteration does to each pre-fabricated packet\<close>

lemma loop_body_reset_cases:
  assumes "loop_body h e s = Inr (s', os)"
  shows "reset s' = reset s \<or>
         (\<exists>r (x::collab) i t. reset s' = CalcChecksums_reset (sums_reset x) (fill_reset r i t (reset s)))"
proof (cases e)
  case RecvFailed
  with assms show ?thesis by simp
next
  case (Recv r x)
  show ?thesis
  proof (cases "ip_header r = None \<and> ipv6_header r = None")
    case True
    with assms Recv show ?thesis by simp
  next
    case False
    with assms Recv obtain o2 where u: "udp_part h r x (fst (tcp_part h r x s)) = Inr (s', o2)"
      using loop_body_Recv by blast
    show ?thesis
    proof (cases "tcp_header r = None \<or> ip_header r = None")
      case True
      then have "reset s' = reset s"
        using udp_part_tcp_frame(1) [OF u] by (auto simp: tcp_part_state split: option.splits)
      then show ?thesis by simp
    next
      case False
      then obtain tcpv ipv where "tcp_header r = Some tcpv" "ip_header r = Some ipv" by auto
      from loop_body_reset(1) [OF assms [unfolded Recv] this] show ?thesis by blast
    qed
  qed
qed

lemma loop_body_resetv6_cases:
  assumes "loop_body h e s = Inr (s', os)"
  shows "resetv6 s' = resetv6 s \<or>
         (\<exists>r (x::collab) i t. resetv6 s' =
            CalcChecksums_resetv6 (sums_resetv6 x) (fill_resetv6 r i t (resetv6 s)))"
proof (cases e)
  case RecvFailed
  with assms show ?thesis by simp
next
  case (Recv r x)
  show ?thesis
  proof (cases "ip_header r = None \<and> ipv6_header r = None")
    case True
    with assms Recv show ?thesis by simp
  next
    case False
    with assms Recv obtain o2 where u: "udp_part h r x (fst (tcp_part h r x s)) = Inr (s', o2)"
      using loop_body_Recv by blast
    show ?thesis
    proof (cases "tcp_header r = None \<or> ipv6_header r = None")
      case True
      then have "resetv6 s' = resetv6 s"
        using udp_part_tcp_frame(2) [OF u] by (auto simp: tcp_part_state split: option.splits)
      then show ?thesis by simp
    next
      case False
      then obtain tcpv ip6v where "tcp_header r = Some tcpv" "ipv6_header r = Some ip6v" by auto
      from loop_body_resetv6(1) [OF assms [unfolded Recv] this] show ?thesis by blast
    qed
  qed
qed

lemma loop_body_dnr_cases:
  assumes "loop_body h e s = Inr (s', os)"
  shows "dnr s' = dnr s \<or>
         (\<exists>r (x::collab) i n d. length d = length (data (dnr s)) \<and>
            dnr s' = CalcChecksums_dnr (sums_dnr x) (fill_dnr h r i n ((dnr s)\<lparr>data := d\<rparr>)))"
proof (cases e)
  case RecvFailed
  with assms show ?thesis by simp
next
  case (Recv r x)
  show ?thesis
  proof (cases "ip_header r = None \<and> ipv6_header r = None")
    case True
    with assms Recv show ?thesis by simp
  next
    case False
    with assms Recv obtain o2 where u: "udp_part h r x (fst (tcp_part h r x s)) = Inr (s', o2)"
      using loop_body_Recv by blast
    show ?thesis
    proof (cases "udp_header r = None \<or> ip_header r = None")
      case True
      then show ?thesis using udp_part_unchanged(1) [OF u] by (simp add: tcp_part_state)
    next
      case False
      then obtain udpv ipv where "udp_header r = Some udpv" "ip_header r = Some ipv" by auto
      from udp_part_dnr [OF u this] obtain d n
        where m: "memcpy (data (dnr (fst (tcp_part h r x s)))) (packet r) (view_off ipv) n = Inr d"
          and eq: "dnr s' = CalcChecksums_dnr (sums_dnr x)
                     (fill_dnr h r (view_hdr ipv)
                        (ucast (ip_HdrLength (view_hdr ipv)) * sizeof_UINT32 + 8 +
                         sizeof_ICMPPACKET h)
                        ((dnr (fst (tcp_part h r x s)))\<lparr>data := d\<rparr>))"
        by blast
      from memcpy_length [OF m] have "length d = length (data (dnr s))"
        by (simp add: tcp_part_state)
      with eq show ?thesis unfolding tcp_part_state by blast
    qed
  qed
qed

lemma loop_body_dnrv6_cases:
  assumes "loop_body h e s = Inr (s', os)"
  shows "dnrv6 s' = dnrv6 s \<or>
         (\<exists>r (x::collab) i d. length d = length (data6 (dnrv6 s)) \<and>
            dnrv6 s' = CalcChecksums_dnrv6 (sums_dnrv6 x) (fill_dnrv6 h r i ((dnrv6 s)\<lparr>data6 := d\<rparr>)))"
proof (cases e)
  case RecvFailed
  with assms show ?thesis by simp
next
  case (Recv r x)
  show ?thesis
  proof (cases "ip_header r = None \<and> ipv6_header r = None")
    case True
    with assms Recv show ?thesis by simp
  next
    case False
    with assms Recv obtain o2 where u: "udp_part h r x (fst (tcp_part h r x s)) = Inr (s', o2)"
      using loop_body_Recv by blast
    show ?thesis
    proof (cases "udp_header r = None \<or> ipv6_header r = None")
      case True
      then show ?thesis using udp_part_unchanged(2) [OF u] by (simp add: tcp_part_state)
    next
      case False
      then obtain udpv ip6v where "udp_header r = Some udpv" "ipv6_header r = Some ip6v" by auto
      from udp_part_dnrv6 [OF u this] obtain d n
        where m: "memcpy (data6 (dnrv6 (fst (tcp_part h r x s)))) (packet r) (view_off ip6v) n = Inr d"
          and eq: "dnrv6 s' = CalcChecksums_dnrv6 (sums_dnrv6 x)
                     (fill_dnrv6 h r (view_hdr ip6v)
                        ((dnrv6 (fst (tcp_part h r x s)))\<lparr>data6 := d\<rparr>))"
        by blast
      from memcpy_length [OF m] have "length d = length (data6 (dnrv6 s))"
        by (simp add: tcp_part_state)
      with eq show ?thesis unfolding tcp_part_state by blast
    qed
  qed
qed

subsection \<open>Invariants of the loop\<close>

lemma loop_body_fixed_reset:
  assumes "loop_body h e s = Inr (s', os)"
    and "ip_fixed IPPROTO_TCP (ip (header (reset s)))" "tcp_fixed (tcp (reset s))"
  shows "ip_fixed IPPROTO_TCP (ip (header (reset s')))" "tcp_fixed (tcp (reset s'))"
  using loop_body_reset_cases [OF assms(1)] assms(2,3)
  by (auto simp: ip_fixed_def tcp_fixed_def synth_fields)

lemma loop_body_fixed_resetv6:
  assumes "loop_body h e s = Inr (s', os)"
    and "ipv6_fixed IPPROTO_TCP (ipv6 (header6 (resetv6 s)))" "tcp_fixed (tcp6 (resetv6 s))"
  shows "ipv6_fixed IPPROTO_TCP (ipv6 (header6 (resetv6 s')))" "tcp_fixed (tcp6 (resetv6 s'))"
  using loop_body_resetv6_cases [OF assms(1)] assms(2,3)
  by (auto simp: ipv6_fixed_def tcp_fixed_def synth_fields)

lemma loop_body_fixed_dnr:
  assumes "loop_body h e s = Inr (s', os)"
    and "ip_fixed IPPROTO_ICMP (ip (iheader (dnr s)))"
    and "icmp_Type (icmp (dnr s)) = 3" "icmp_Code (icmp (dnr s)) = 3"
  shows "ip_fixed IPPROTO_ICMP (ip (iheader (dnr s')))"
    and "icmp_Type (icmp (dnr s')) = 3" "icmp_Code (icmp (dnr s')) = 3"
  using loop_body_dnr_cases [OF assms(1)] assms(2,3,4)
  by (auto simp: ip_fixed_def synth_fields)

lemma loop_body_fixed_dnrv6:
  assumes "loop_body h e s = Inr (s', os)"
    and "ipv6_fixed IPPROTO_ICMPV6 (ipv6 (iheader6 (dnrv6 s)))"
    and "icmpv6_Type (icmpv6 (dnrv6 s)) = 1" "icmpv6_Code (icmpv6 (dnrv6 s)) = 4"
  shows "ipv6_fixed IPPROTO_ICMPV6 (ipv6 (iheader6 (dnrv6 s')))"
    and "icmpv6_Type (icmpv6 (dnrv6 s')) = 1" "icmpv6_Code (icmpv6 (dnrv6 s')) = 4"
  using loop_body_dnrv6_cases [OF assms(1)] assms(2,3,4)
  by (auto simp: ipv6_fixed_def synth_fields)

lemma loop_body_fixed:
  assumes "loop_body h e s = Inr (s', os)" "templates_fixed s"
  shows "templates_fixed s'"
  using assms(2) loop_body_fixed_reset [OF assms(1)] loop_body_fixed_resetv6 [OF assms(1)]
    loop_body_fixed_dnr [OF assms(1)] loop_body_fixed_dnrv6 [OF assms(1)]
  unfolding templates_fixed_def by blast

subsection \<open>When an iteration is undefined\<close>

lemma dnr_branch_Inl:
  "dnr_branch h r x ipv s = Inl e \<Longrightarrow>
     memcpy (data (dnr s)) (packet r) (view_off ipv)
       (unat (ucast (ip_HdrLength (view_hdr ipv)) * sizeof_UINT32 + 8 :: UINT)) = Inl e"
  by (auto simp: dnr_branch_def Let_def split: sum.splits)

lemma dnrv6_branch_Inl:
  "dnrv6_branch h r x ip6v s = Inl e \<Longrightarrow>
     memcpy (data6 (dnrv6 s)) (packet r) (view_off ip6v)
       (unat (sizeof_DIVERT_IPV6HDR + sizeof_DIVERT_TCPHDR)) = Inl e"
  by (auto simp: dnrv6_branch_def Let_def split: sum.splits)

lemma udp_part_Inl:
  assumes "udp_part h r x s = Inl e"
  shows "(\<exists>ipv. ip_header r = Some ipv \<and>
            memcpy (data (dnr s)) (packet r) (view_off ipv)
              (unat (ucast (ip_HdrLength (view_hdr ipv)) * sizeof_UINT32 + 8 :: UINT)) = Inl e) \<or>
         (\<exists>ip6v. ipv6_header r = Some ip6v \<and>
            memcpy (data6 (dnrv6 s)) (packet r) (view_off ip6v)
              (unat (sizeof_DIVERT_IPV6HDR + sizeof_DIVERT_TCPHDR)) = Inl e)"
  using assms
  by (auto simp: udp_part_def split: option.splits sum.splits
      dest!: dnr_branch_Inl dnrv6_branch_Inl dnr_branch_Inr)

lemma udp_part_no_udp: "udp_header r = None \<Longrightarrow> udp_part h r x s = Inr (s, [])"
  by (simp add: udp_part_def)

lemma loop_body_Inl_udp:
  "loop_body h (Recv r x) s = Inl err \<Longrightarrow> udp_part h r x (fst (tcp_part h r x s)) = Inl err"
  by (auto simp: split_beta Let_def split: if_splits sum.splits)

lemma loop_body_Inl:
  assumes "loop_body h e s = Inl err"
  shows "\<exists>r x. e = Recv r x \<and> udp_header r \<noteq> None \<and>
         ((\<exists>ipv. ip_header r = Some ipv \<and>
            memcpy (data (dnr s)) (packet r) (view_off ipv)
              (unat (ucast (ip_HdrLength (view_hdr ipv)) * sizeof_UINT32 + 8 :: UINT)) = Inl err) \<or>
         (\<exists>ip6v. ipv6_header r = Some ip6v \<and>
            memcpy (data6 (dnrv6 s)) (packet r) (view_off ip6v)
              (unat (sizeof_DIVERT_IPV6HDR + sizeof_DIVERT_TCPHDR)) = Inl err))"
proof (cases e)
  case RecvFailed
  with assms show ?thesis by simp
next
  case (Recv r x)
  with assms have u: "udp_part h r x (fst (tcp_part h r x s)) = Inl err"
    using loop_body_Inl_udp by blast
  then have "udp_header r \<noteq> None"
    using udp_part_no_udp [of r h x "fst (tcp_part h r x s)"] by auto
  with udp_part_Inl [OF u] Recv show ?thesis
    by (simp add: tcp_part_state)
qed

lemma loop_body_write_ok:
  assumes "length (data (dnr s)) = dnr_data_size" "length (data6 (dnrv6 s)) = dnrv6_data_size"
  shows "loop_body h e s \<noteq> Inl WriteOutOfBounds"
proof
  assume "loop_body h e s = Inl WriteOutOfBounds"
  from loop_body_Inl [OF this] obtain r :: received where
    "(\<exists>ipv. ip_header r = Some ipv \<and> memcpy (data (dnr s)) (packet r) (view_off ipv)
              (unat (ucast (ip_HdrLength (view_hdr ipv)) * sizeof_UINT32 + 8 :: UINT))
            = Inl WriteOutOfBounds) \<or>
     (\<exists>ip6v. ipv6_header r = Some ip6v \<and> memcpy (data6 (dnrv6 s)) (packet r) (view_off ip6v)
              (unat (sizeof_DIVERT_IPV6HDR + sizeof_DIVERT_TCPHDR)) = Inl WriteOutOfBounds)"
    by blast
  then show False
  proof (elim disjE exE conjE)
    fix ipv
    assume "ip_header r = Some ipv" "memcpy (data (dnr s)) (packet r) (view_off ipv)
              (unat (ucast (ip_HdrLength (view_hdr ipv)) * sizeof_UINT32 + 8 :: UINT))
            = Inl WriteOutOfBounds"
    moreover have "unat (ucast (ip_HdrLength (view_hdr ipv)) * sizeof_UINT32 + 8 :: UINT)
                     \<le> length (data (dnr s))"
      using icmp_length_le [of "ip_HdrLength (view_hdr ipv)"] assms(1) by simp
    ultimately show False using memcpy_write_ok by blast
  next
    fix ip6v
    assume "ipv6_header r = Some ip6v" "memcpy (data6 (dnrv6 s)) (packet r) (view_off ip6v)
              (unat (sizeof_DIVERT_IPV6HDR + sizeof_DIVERT_TCPHDR)) = Inl WriteOutOfBounds"
    moreover have "unat (sizeof_DIVERT_IPV6HDR + sizeof_DIVERT_TCPHDR)
                     \<le> length (data6 (dnrv6 s))"
      using icmpv6_length_unat assms(2) by simp
    ultimately show False using memcpy_write_ok by blast
  qed
qed

lemma loop_body_defined:
  assumes "length (data (dnr s)) = dnr_data_size" "length (data6 (dnrv6 s)) = dnrv6_data_size"
    and "\<And>ipv. udp_header r \<noteq> None \<Longrightarrow> ip_header r = Some ipv \<Longrightarrow>
           view_off ipv + (unat (ip_HdrLength (view_hdr ipv)) * 4 + 8) \<le> length (packet r)"
    and "\<And>ip6v. udp_header r \<noteq> None \<Longrightarrow> ipv6_header r = Some ip6v \<Longrightarrow>
           view_off ip6v + 60 \<le> length (packet r)"
  shows "\<exists>s' os. loop_body h (Recv r x) s = Inr (s', os)"
proof (cases "loop_body h (Recv r x) s")
  case (Inr a)
  then show ?thesis by (cases a) simp
next
  case (Inl err)
  from loop_body_Inl [OF Inl] have u: "udp_header r \<noteq> None"
    and c: "(\<exists>ipv. ip_header r = Some ipv \<and>
            memcpy (data (dnr s)) (packet r) (view_off ipv)
              (unat (ucast (ip_HdrLength (view_hdr ipv)) * sizeof_UINT32 + 8 :: UINT)) = Inl err) \<or>
         (\<exists>ip6v. ipv6_header r = Some ip6v \<and>
            memcpy (data6 (dnrv6 s)) (packet r) (view_off ip6v)
              (unat (sizeof_DIVERT_IPV6HDR + sizeof_DIVERT_TCPHDR)) = Inl err)"
    by auto
  from c have False
  proof (elim disjE exE conjE)
    fix ipv
    assume i: "ip_header r = Some ipv"
      and m: "memcpy (data (dnr s)) (packet r) (view_off ipv)
              (unat (ucast (ip_HdrLength (view_hdr ipv)) * sizeof_UINT32 + 8 :: UINT)) = Inl err"
    have "unat (ucast (ip_HdrLength (view_hdr ipv)) * sizeof_UINT32 + 8 :: UINT)
                     \<le> length (data (dnr s))"
      using icmp_length_le [of "ip_HdrLength (view_hdr ipv)"] assms(1) by simp
    with m assms(3) [OF u i] show False
      by (simp add: memcpy_def icmp_length_unat)
  next
    fix ip6v
    assume i: "ipv6_header r = Some ip6v"
      and m: "memcpy (data6 (dnrv6 s)) (packet r) (view_off ip6v)
              (unat (sizeof_DIVERT_IPV6HDR + sizeof_DIVERT_TCPHDR)) = Inl err"
    from m assms(4) [OF u i] assms(2) show False
      by (simp add: memcpy_def dnrv6_data_size_def sizeof_DIVERT_IPV6HDR_def
          sizeof_DIVERT_TCPHDR_def)
  qed
  then show ?thesis ..
qed

lemma loop_body_data_length:
  assumes "loop_body h e s = Inr (s', os)"
  shows "length (data (dnr s')) = length (data (dnr s))"
    and "length (data6 (dnrv6 s')) = length (data6 (dnrv6 s))"
  using loop_body_dnr_cases [OF assms] loop_body_dnrv6_cases [OF assms]
  by (auto simp: synth_fields)

lemma loop_body_lengths_kept:
  assumes "loop_body h e s = Inr (s', os)"
  shows "ip_Length (ip (header (reset s'))) = ip_Length (ip (header (reset s)))"
    and "ipv6_Length (ipv6 (header6 (resetv6 s'))) = ipv6_Length (ipv6 (header6 (resetv6 s)))"
    and "ipv6_Length (ipv6 (iheader6 (dnrv6 s'))) = ipv6_Length (ipv6 (iheader6 (dnrv6 s)))"
  using loop_body_reset_cases [OF assms] loop_body_resetv6_cases [OF assms]
    loop_body_dnrv6_cases [OF assms]
  by (auto simp: synth_fields)

subsection \<open>The loop\<close>

lemma run_Cons_Inr:
  "run h (e # es) s = Inr (s'', os) \<Longrightarrow>
     \<exists>s' o1 o2. loop_body h e s = Inr (s', o1) \<and> run h es s' = Inr (s'', o2) \<and> os = o1 @ o2"
  by (auto split: sum.splits)

lemma run_fixed:
  "run h es s = Inr (s', os) \<Longrightarrow> templates_fixed s \<Longrightarrow> templates_fixed s'"
proof (induction es arbitrary: s os)
  case Nil
  then show ?case by simp
next
  case (Cons e es)
  from run_Cons_Inr [OF Cons.prems(1)] obtain s1 o1 o2
    where "loop_body h e s = Inr (s1, o1)" "run h es s1 = Inr (s', o2)" by blast
  with Cons.IH Cons.prems(2) loop_body_fixed show ?case by blast
qed

lemma run_data_length:
  "run h es s = Inr (s', os) \<Longrightarrow>
     length (data (dnr s')) = length (data (dnr s)) \<and>
     length (data6 (dnrv6 s')) = length (data6 (dnrv6 s))"
proof (induction es arbitrary: s os)
  case Nil
  then show ?case by simp
next
  case (Cons e es)
  from run_Cons_Inr [OF Cons.prems(1)] obtain s1 o1 o2
    where "loop_body h e s = Inr (s1, o1)" "run h es s1 = Inr (s', o2)" by blast
  with Cons.IH loop_body_data_length show ?case by metis
qed

lemma run_lengths_kept:
  "run h es s = Inr (s', os) \<Longrightarrow>
     ip_Length (ip (header (reset s'))) = ip_Length (ip (header (reset s))) \<and>
     ipv6_Length (ipv6 (header6 (resetv6 s'))) = ipv6_Length (ipv6 (header6 (resetv6 s))) \<and>
     ipv6_Length (ipv6 (iheader6 (dnrv6 s'))) = ipv6_Length (ipv6 (iheader6 (dnrv6 s)))"
proof (induction es arbitrary: s os)
  case Nil
  then show ?case by simp
next
  case (Cons e es)
  from run_Cons_Inr [OF Cons.prems(1)] obtain s1 o1 o2
    where "loop_body h e s = Inr (s1, o1)" "run h es s1 = Inr (s', o2)" by blast
  with Cons.IH loop_body_lengths_kept show ?case by metis
qed

lemma run_write_ok:
  "length (data (dnr s)) = dnr_data_size \<Longrightarrow> length (data6 (dnrv6 s)) = dnrv6_data_size \<Longrightarrow>
     run h es s \<noteq> Inl WriteOutOfBounds"
proof (induction es arbitrary: s)
  case Nil
  then show ?case by simp
next
  case (Cons e es)
  show ?case
  proof (cases "loop_body h e s")
    case (Inl err)
    with loop_body_write_ok [OF Cons.prems, of h e] show ?thesis by auto
  next
    case (Inr a)
    obtain s1 o1 where a: "a = (s1, o1)" by (cases a)
    from loop_body_data_length [OF Inr [unfolded a]] Cons.prems
    have "run h es s1 \<noteq> Inl WriteOutOfBounds" by (intro Cons.IH) simp_all
    with Inr a show ?thesis by (auto split: sum.splits)
  qed
qed

subsection \<open>The pre-fabricated packets after initialisation\<close>

lemma init_fixed: "templates_fixed (init_packets h u)"
  by (simp add: templates_fixed_def ip_fixed_def ipv6_fixed_def tcp_fixed_def init_packets_def
      PacketIpTcpInit_def PacketIpIcmpInit_def PacketIpv6TcpInit_def PacketIpv6Icmpv6Init_def
      PacketIpInit_def PacketIpv6Init_def Let_def sizeof_DIVERT_IPHDR_def sizeof_UINT32_def
      sizeof_DIVERT_TCPHDR_def)

lemma init_data_length:
  "length (data (dnr (init_packets h u))) = dnr_data_size"
  "length (data6 (dnrv6 (init_packets h u))) = dnrv6_data_size"
  by (simp_all add: init_packets_def PacketIpIcmpInit_def PacketIpv6Icmpv6Init_def Let_def)

lemma init_lengths:
  "ip_Length (ip (header (reset (init_packets h u)))) =
     htons (ucast (sizeof_TCPPACKET h - sizeof_DIVERT_PACKET h))"
  "ipv6_Length (ipv6 (header6 (resetv6 (init_packets h u)))) = htons (ucast sizeof_DIVERT_TCPHDR)"
  "ipv6_Length (ipv6 (iheader6 (dnrv6 (init_packets h u)))) =
     htons (ucast (sizeof_DIVERT_ICMPV6HDR h + 4 + sizeof_DIVERT_IPV6HDR + sizeof_DIVERT_TCPHDR))"
  by (simp_all add: init_packets_def PacketIpTcpInit_def PacketIpv6TcpInit_def
      PacketIpv6Icmpv6Init_def PacketIpInit_def PacketIpv6Init_def Let_def)

lemma run_defined:
  "list_all reads_in_bounds es \<Longrightarrow>
   length (data (dnr s)) = dnr_data_size \<Longrightarrow> length (data6 (dnrv6 s)) = dnrv6_data_size \<Longrightarrow>
     \<exists>s' os. run h es s = Inr (s', os)"
proof (induction es arbitrary: s)
  case Nil
  then show ?case by simp
next
  case (Cons e es)
  have "\<exists>s1 o1. loop_body h e s = Inr (s1, o1)"
  proof (cases e)
    case RecvFailed
    then show ?thesis by simp
  next
    case (Recv r x)
    with Cons.prems(1) have rb: "reads_in_bounds (Recv r x)" by simp
    show ?thesis unfolding Recv
    proof (rule loop_body_defined [OF Cons.prems(2,3)])
      fix ipv assume "udp_header r \<noteq> None" "ip_header r = Some ipv"
      with rb show "view_off ipv + (unat (ip_HdrLength (view_hdr ipv)) * 4 + 8) \<le> length (packet r)"
        by (simp add: reads_in_bounds_def)
    next
      fix ip6v assume "udp_header r \<noteq> None" "ipv6_header r = Some ip6v"
      with rb show "view_off ip6v + 60 \<le> length (packet r)"
        by (simp add: reads_in_bounds_def)
    qed
  qed
  then obtain s1 o1 where st: "loop_body h e s = Inr (s1, o1)" by blast
  from loop_body_data_length [OF st] Cons.prems
  have "\<exists>s' os. run h es s1 = Inr (s', os)" by (intro Cons.IH) simp_all
  with st show ?case by auto
qed

subsection \<open>The sample inputs\<close>

lemma sample_s0_data_length:
  "length (data (dnr sample_s0)) = dnr_data_size"
  "length (data6 (dnrv6 sample_s0)) = dnrv6_data_size"
  by (simp_all add: sample_s0_def init_data_length)

lemma length_sample_packet: "length sample_packet = 2048"
  by (simp add: sample_packet_def MAXBUF_def)

lemma sample_reads_in_bounds:
  "reads_in_bounds (Recv rcv_syn_v4 sample_collab)"
  "reads_in_bounds (Recv rcv_ack_v6 sample_collab)"
  "reads_in_bounds (Recv (rcv_udp_v4 d) sample_collab)"
  "reads_in_bounds (Recv (rcv_udp_v6 d) sample_collab)"
  by (simp_all add: reads_in_bounds_def rcv_syn_v4_def rcv_ack_v6_def rcv_udp_v4_def
      rcv_udp_v6_def sample_received_def sample_ip_def sample_ipv6_def length_sample_packet)

lemma sample_step_defined:
  assumes "reads_in_bounds (Recv r x)"
  shows "loop_body sample_h (Recv r x) sample_s0 =
           Inr (fst (projr (loop_body sample_h (Recv r x) sample_s0)),
                snd (projr (loop_body sample_h (Recv r x) sample_s0)))"
proof -
  from run_defined [of "[Recv r x]" sample_s0 sample_h] assms sample_s0_data_length
  obtain s' os where "run sample_h [Recv r x] sample_s0 = Inr (s', os)" by auto
  then obtain s1 o1 where "loop_body sample_h (Recv r x) sample_s0 = Inr (s1, o1)"
    by (auto split: sum.splits)
  then show ?thesis by simp
qed

subsection \<open>Lengths, directions and what can go wrong\<close>

lemma lnot_neq: "lnot d \<noteq> d"
  by (simp add: lnot_def)

text \<open>
  Whatever value \<^verbatim>\<open>divert.h\<close> gives to the outbound direction: the ICMP message sent for
  an outbound UDP packet over IPv4 does not have the negated direction.
\<close>

lemma icmp_direction_of_outbound_packet:
  assumes "loop_body h (Recv r x) s = Inr (s', os)"
    and "udp_header r = Some udpv" and "ip_header r = Some ipv"
    and "Direction (ppacket r) = DIVERT_PACKET_DIRECTION_OUTBOUND h"
  shows "Direction (divert (iheader (dnr s'))) \<noteq> lnot (Direction (ppacket r))"
proof -
  from loop_body_dnr [OF assms(1,2,3)]
  have "Direction (divert (iheader (dnr s'))) = DIVERT_PACKET_DIRECTION_OUTBOUND h"
    by (auto simp: synth_fields)
  with assms(4) lnot_neq [of "Direction (ppacket r)"] show ?thesis by simp
qed

lemma memcpy_can_fail: "memcpy [] [0, 0] 0 1 = Inl WriteOutOfBounds"
  by (simp add: memcpy_def)

lemma main_Undefined:
  "snd (main h u args opened evs) = Undefined err \<Longrightarrow> run h evs (init_packets h u) = Inl err"
  by (auto simp: main_def Let_def split: sum.splits fatal.splits open_result.splits if_splits)

lemma ucast_16_32_id: "unat (w :: UINT) < 65536 \<Longrightarrow> ucast (ucast w :: UINT16) = w"
proof -
  assume a: "unat w < 65536"
  have "unat (ucast (ucast w :: UINT16) :: UINT) = unat w"
    using a by (simp add: unsigned_ucast_eq unsigned_take_bit_eq take_bit_nat_eq_self)
  then show ?thesis by (simp only: word_unat_eq_iff)
qed

lemma reset_length_value: "sizeof_TCPPACKET h - sizeof_DIVERT_PACKET h = 40"
  by (simp add: sizeof_TCPPACKET_def sizeof_PACKET_def sizeof_DIVERT_IPHDR_def
      sizeof_DIVERT_TCPHDR_def)

lemma resetv6_length_value:
  "sizeof_TCPV6PACKET h - sizeof_DIVERT_PACKET h - sizeof_DIVERT_IPV6HDR = 20"
  "sizeof_DIVERT_TCPHDR = 20"
  by (simp_all add: sizeof_TCPV6PACKET_def sizeof_PACKETV6_def sizeof_DIVERT_IPV6HDR_def
      sizeof_DIVERT_TCPHDR_def)

lemma dnr_length_value:
  "(ucast (hl :: 4 word) * sizeof_UINT32 + 8 + sizeof_ICMPPACKET h) - sizeof_DIVERT_PACKET h =
     sizeof_DIVERT_IPHDR + sizeof_DIVERT_ICMPHDR h + (ucast hl * sizeof_UINT32 + 8)"
  by (simp add: sizeof_ICMPPACKET_def sizeof_PACKET_def)

lemma dnr_length_unat:
  assumes "unat (sizeof_DIVERT_ICMPHDR h) + 88 < 65536"
  shows "unat (sizeof_DIVERT_IPHDR + sizeof_DIVERT_ICMPHDR h +
               (ucast (hl :: 4 word) * sizeof_UINT32 + 8)) =
           20 + unat (sizeof_DIVERT_ICMPHDR h) + (unat hl * 4 + 8)"
proof -
  let ?A = "sizeof_DIVERT_IPHDR + sizeof_DIVERT_ICMPHDR h"
  let ?B = "ucast hl * sizeof_UINT32 + 8 :: UINT"
  have lt: "unat hl < 16" using unsigned_less [of hl, where ?'a = nat] by simp
  have b: "unat ?B = unat hl * 4 + 8" by (rule icmp_length_unat)
  have "unat ?A = (20 + unat (sizeof_DIVERT_ICMPHDR h)) mod 2 ^ 32"
    unfolding unat_word_ariths(1) by (simp add: sizeof_DIVERT_IPHDR_def)
  with assms have a: "unat ?A = 20 + unat (sizeof_DIVERT_ICMPHDR h)" by simp
  have "unat (?A + ?B) = (unat ?A + unat ?B) mod 2 ^ 32"
    using unat_word_ariths(1) [of ?A ?B] by simp
  also have "\<dots> = 20 + unat (sizeof_DIVERT_ICMPHDR h) + (unat hl * 4 + 8)"
    unfolding a b using assms lt by simp
  finally show ?thesis .
qed

lemma reachable_lengths:
  assumes "run h evs (init_packets h u) = Inr (s, os0)"
    and "loop_body h e s = Inr (s', os)"
  shows "ip_Length (ip (header (reset s'))) = ip_Length (ip (header (reset (init_packets h u))))"
    and "ipv6_Length (ipv6 (header6 (resetv6 s'))) =
           ipv6_Length (ipv6 (header6 (resetv6 (init_packets h u))))"
    and "ipv6_Length (ipv6 (iheader6 (dnrv6 s'))) =
           ipv6_Length (ipv6 (iheader6 (dnrv6 (init_packets h u))))"
  using run_lengths_kept [OF assms(1)] loop_body_lengths_kept [OF assms(2)] by simp_all

lemma dnr_length_field:
  assumes "loop_body h (Recv r x) s = Inr (s', os)"
    and "udp_header r = Some udpv" and "ip_header r = Some ipv"
    and "unat (sizeof_DIVERT_ICMPHDR h) + 88 < 65536"
  shows "sent_dnr os =
           [(dnr s', ucast (ip_HdrLength (view_hdr ipv)) * sizeof_UINT32 + 8 + sizeof_ICMPPACKET h)]"
    and "ucast (ntohs (ip_Length (ip (iheader (dnr s'))))) =
           ucast (ip_HdrLength (view_hdr ipv)) * sizeof_UINT32 + 8 + sizeof_ICMPPACKET h -
           sizeof_DIVERT_PACKET h"
    and "unat (ucast (ip_HdrLength (view_hdr ipv)) * sizeof_UINT32 + 8 + sizeof_ICMPPACKET h -
               sizeof_DIVERT_PACKET h) =
           20 + unat (sizeof_DIVERT_ICMPHDR h) + (unat (ip_HdrLength (view_hdr ipv)) * 4 + 8)"
proof -
  let ?L = "ucast (ip_HdrLength (view_hdr ipv)) * sizeof_UINT32 + 8 + sizeof_ICMPPACKET h"
  from loop_body_dnr [OF assms(1,2,3)] obtain d
    where eq: "dnr s' = CalcChecksums_dnr (sums_dnr x)
                 (fill_dnr h r (view_hdr ipv) ?L ((dnr s)\<lparr>data := d\<rparr>))"
      and sent: "sent_dnr os = [(dnr s', ?L)]"
    by auto
  show "sent_dnr os = [(dnr s', ?L)]" by (rule sent)
  show u: "unat (?L - sizeof_DIVERT_PACKET h) =
          20 + unat (sizeof_DIVERT_ICMPHDR h) + (unat (ip_HdrLength (view_hdr ipv)) * 4 + 8)"
    unfolding dnr_length_value by (rule dnr_length_unat [OF assms(4)])
  have lt: "unat (ip_HdrLength (view_hdr ipv)) < 16"
    using unsigned_less [of "ip_HdrLength (view_hdr ipv)", where ?'a = nat] by simp
  have "unat (?L - sizeof_DIVERT_PACKET h) < 65536"
    unfolding u using assms(4) lt by simp
  from ucast_16_32_id [OF this]
  show "ucast (ntohs (ip_Length (ip (iheader (dnr s'))))) = ?L - sizeof_DIVERT_PACKET h"
    unfolding eq by (simp add: synth_fields ntohs_htons)
qed

text \<open>
  What the code does with the payload length of the ICMPv6 message: the field keeps the
  value stored once at line 154, which counts four bytes more than the buffer handed to
  \<^verbatim>\<open>DivertSend\<close> holds behind its IPv6 header.
\<close>

lemma dnrv6_length_field:
  assumes "run h evs (init_packets h u) = Inr (s, os0)"
    and "loop_body h (Recv r x) s = Inr (s', os)"
    and "udp_header r = Some udpv" and "ipv6_header r = Some ip6v"
  shows "sent_dnrv6 os =
           [(dnrv6 s', sizeof_DIVERT_IPV6HDR + sizeof_DIVERT_TCPHDR + sizeof_ICMPV6PACKET h)]"
    and "ntohs (ipv6_Length (ipv6 (iheader6 (dnrv6 s')))) =
           ucast (sizeof_DIVERT_IPV6HDR + sizeof_DIVERT_TCPHDR + sizeof_ICMPV6PACKET h -
                  sizeof_DIVERT_PACKET h - sizeof_DIVERT_IPV6HDR + 4)"
proof -
  from loop_body_dnrv6 [OF assms(2,3,4)]
  show "sent_dnrv6 os =
           [(dnrv6 s', sizeof_DIVERT_IPV6HDR + sizeof_DIVERT_TCPHDR + sizeof_ICMPV6PACKET h)]"
    by auto
  have "sizeof_DIVERT_IPV6HDR + sizeof_DIVERT_TCPHDR + sizeof_ICMPV6PACKET h -
          sizeof_DIVERT_PACKET h - sizeof_DIVERT_IPV6HDR + 4 =
        sizeof_DIVERT_ICMPV6HDR h + 4 + sizeof_DIVERT_IPV6HDR + sizeof_DIVERT_TCPHDR"
    by (simp add: sizeof_ICMPV6PACKET_def sizeof_PACKETV6_def)
  then show "ntohs (ipv6_Length (ipv6 (iheader6 (dnrv6 s')))) =
           ucast (sizeof_DIVERT_IPV6HDR + sizeof_DIVERT_TCPHDR + sizeof_ICMPV6PACKET h -
                  sizeof_DIVERT_PACKET h - sizeof_DIVERT_IPV6HDR + 4)"
    unfolding reachable_lengths(3) [OF assms(1,2)] init_lengths
    by (simp only: ntohs_htons)
qed

subsection \<open>The filter string handed to the device\<close>

lemma spaced_simps [simp]:
  "spaced [] = []"
  "spaced (a # as) = a @ CHR '' '' # spaced as"
  by (simp_all add: spaced_def)

lemma spaced_joined: "args \<noteq> [] \<Longrightarrow> spaced args = joined args @ [CHR '' '']"
  by (induction args rule: joined.induct) simp_all

lemma length_spaced_joined: "args \<noteq> [] \<Longrightarrow> length (spaced args) = length (joined args) + 1"
  by (simp add: spaced_joined)

lemma strcpy_then_space:
  assumes "flen + strlen a + 1 \<le> length buf"
  shows "(strcpy buf flen a)[flen + strlen a := CHR '' ''] =
           take flen buf @ (a @ [CHR '' '']) @ drop (flen + strlen a + 1) buf"
  using assms by (simp add: strcpy_def strlen_def list_update_append)

lemma concat_args_fits:
  "flen + length (spaced args) < MAXBUF \<Longrightarrow> length buf = MAXBUF \<Longrightarrow>
     concat_args args flen buf =
       Inr (flen + length (spaced args),
            take flen buf @ spaced args @ drop (flen + length (spaced args)) buf)"
proof (induction args arbitrary: flen buf)
  case Nil
  then show ?case by simp
next
  case (Cons a as)
  let ?buf = "take flen buf @ (a @ [CHR '' '']) @ drop (flen + strlen a + 1) buf"
  let ?flen = "flen + strlen a + 1"
  from Cons.prems have le: "flen + strlen a + 1 < MAXBUF" and le': "?flen \<le> length buf"
    by (simp_all add: strlen_def)
  have len: "length ?buf = MAXBUF" using Cons.prems(2) le by (simp add: strlen_def)
  have fits: "?flen + length (spaced as) < MAXBUF" using Cons.prems(1) by (simp add: strlen_def)
  have "concat_args (a # as) flen buf = concat_args as ?flen ?buf"
    using le strcpy_then_space [OF le'] by (simp add: Let_def)
  also have "\<dots> = Inr (?flen + length (spaced as),
      take ?flen ?buf @ spaced as @ drop (?flen + length (spaced as)) ?buf)"
    by (rule Cons.IH [OF fits len])
  also have "take ?flen ?buf = take flen buf @ a @ [CHR '' '']"
    using le' by (simp add: strlen_def)
  also have "drop (?flen + length (spaced as)) ?buf =
      drop (flen + length (spaced (a # as))) buf"
    using le' by (simp add: strlen_def add.commute add.left_commute)
  finally show ?case by (simp add: strlen_def)
qed

lemma concat_args_too_long:
  "MAXBUF \<le> flen + length (spaced args) \<Longrightarrow> flen < MAXBUF \<Longrightarrow>
     concat_args args flen buf = Inl FilterTooLong"
proof (induction args arbitrary: flen buf)
  case Nil
  then show ?case by simp
next
  case (Cons a as)
  show ?case
  proof (cases "MAXBUF \<le> flen + strlen a + 1")
    case True
    then show ?thesis by (simp add: Let_def)
  next
    case False
    then have "concat_args (a # as) flen buf =
        concat_args as (flen + strlen a + 1) ((strcpy buf flen a)[flen + strlen a := CHR '' ''])"
      by (simp add: Let_def)
    also have "\<dots> = Inl FilterTooLong"
      using Cons.prems False by (intro Cons.IH) (simp_all add: strlen_def)
    finally show ?thesis .
  qed
qed

lemma build_filter_fits:
  assumes "length (spaced args) < MAXBUF" "length buf = MAXBUF"
  shows "build_filter args buf =
           Inr (spaced args @ NUL # drop (length (spaced args) + 1) buf)"
proof -
  from concat_args_fits [of 0 args buf] assms
  have "concat_args args 0 buf =
          Inr (length (spaced args), spaced args @ drop (length (spaced args)) buf)"
    by simp
  moreover have "(spaced args @ drop (length (spaced args)) buf)[length (spaced args) := NUL] =
      spaced args @ NUL # drop (length (spaced args) + 1) buf"
    using assms by (simp add: list_update_append upd_conv_take_nth_drop Cons_nth_drop_Suc
        drop_Suc_Cons [symmetric] del: drop_Suc_Cons)
  ultimately show ?thesis by (simp add: build_filter_def)
qed

lemma build_filter_too_long:
  assumes "MAXBUF \<le> length (spaced args)"
  shows "build_filter args buf = Inl FilterTooLong"
  using concat_args_too_long [of 0 args buf] assms
  by (simp add: build_filter_def MAXBUF_def)

lemma c_string_terminated:
  assumes "NUL \<notin> set f"
  shows "c_string (f @ NUL # rest) = f"
proof -
  from assms have "\<And>c. c \<in> set f \<Longrightarrow> c \<noteq> NUL" by auto
  then show ?thesis by (simp add: c_string_def takeWhile_append2)
qed

lemma NUL_spaced: "\<forall>a\<in>set args. NUL \<notin> set a \<Longrightarrow> NUL \<notin> set (spaced args)"
  by (induction args) (auto simp: NUL_def)

lemma length_uninit_filter: "length (map (filter0 u) [0..<MAXBUF]) = MAXBUF"
  by simp

lemma main_too_long:
  assumes "MAXBUF \<le> length (spaced args)"
  shows "main h u args opened evs = ([Stderr ''error: filter too long''], Exit EXIT_FAILURE)"
  using build_filter_too_long [OF assms] by (simp add: main_def)

lemma opened_with_append: "opened_with (a @ b) = opened_with a @ opened_with b"
  by (induction a rule: opened_with.induct) simp_all

lemma tcp_part_opens_nothing: "opened_with (snd (tcp_part h r x s)) = []"
  by (simp add: tcp_part_def reset_branch_def resetv6_branch_def Let_def split_beta
      opened_with_append split: option.splits)

lemma udp_part_opens_nothing:
  "udp_part h r x s = Inr (s', os) \<Longrightarrow> opened_with os = []"
  by (auto simp: udp_part_def dnr_branch_def dnrv6_branch_def Let_def opened_with_append
      split: option.splits sum.splits)

lemma loop_body_opens_nothing:
  assumes "loop_body h e s = Inr (s', os)"
  shows "opened_with os = []"
proof (cases e)
  case RecvFailed
  with assms show ?thesis by auto
next
  case (Recv r x)
  show ?thesis
  proof (cases "ip_header r = None \<and> ipv6_header r = None")
    case True
    with assms Recv show ?thesis by auto
  next
    case False
    with assms Recv obtain o2 where "udp_part h r x (fst (tcp_part h r x s)) = Inr (s', o2)"
      and "os = snd (tcp_part h r x s) @ o2"
      using loop_body_Recv by blast
    then show ?thesis
      using udp_part_opens_nothing tcp_part_opens_nothing by (simp add: opened_with_append)
  qed
qed

lemma run_opens_nothing:
  "run h evs s = Inr (s', os) \<Longrightarrow> opened_with os = []"
proof (induction evs arbitrary: s os)
  case Nil
  then show ?case by simp
next
  case (Cons e evs)
  from run_Cons_Inr [OF Cons.prems] obtain s1 o1 o2
    where "loop_body h e s = Inr (s1, o1)" and "run h evs s1 = Inr (s', o2)"
      and "os = o1 @ o2"
    by blast
  with Cons.IH loop_body_opens_nothing show ?case
    by (simp add: opened_with_append)
qed

lemma main_opens:
  assumes "length (spaced args) < MAXBUF" "\<forall>a\<in>set args. NUL \<notin> set a"
  shows "opened_with (fst (main h u args opened evs)) = [spaced args]"
proof -
  have b: "build_filter args (map (filter0 u) [0..<MAXBUF]) =
      Inr (spaced args @ NUL # drop (length (spaced args) + 1) (map (filter0 u) [0..<MAXBUF]))"
    by (rule build_filter_fits [OF assms(1) length_uninit_filter])
  note c = c_string_terminated [OF NUL_spaced [OF assms(2)]]
  show ?thesis
    unfolding main_def b
    by (auto simp: c Let_def opened_with_append dest: run_opens_nothing
        split: open_result.splits sum.splits simp del: drop_map)
qed

section \<open>The claims\<close>

text \<open>
  Claim C1. Whenever an iteration handles a packet with a TCP header, the reset it sends
  (over IPv4 if there is an IPv4 header, over IPv6 if there is an IPv6 header) carries as
  sequence number the intercepted acknowledgment number if the intercepted ACK flag is
  set and 0 otherwise, and as acknowledgment number, read in host order, the intercepted
  sequence number in host order plus 1 if the intercepted SYN flag is set and plus the
  payload length otherwise. The addition is that of 32-bit unsigned integers.
\<close>

theorem rst_sequence_numbers:
  assumes "loop_body h (Recv r x) s = Inr (s', os)" and "tcp_header r = Some tcpv"
  shows "(ip_header r \<noteq> None \<longrightarrow>
            sent_reset os = [(reset s', sizeof_TCPPACKET h)] \<and>
            tcp_SeqNum (tcp (reset s')) =
              (if tcp_Ack (view_hdr tcpv) \<noteq> 0 then tcp_AckNum (view_hdr tcpv) else 0) \<and>
            ntohl (tcp_AckNum (tcp (reset s'))) =
              ntohl (tcp_SeqNum (view_hdr tcpv)) +
              (if tcp_Syn (view_hdr tcpv) \<noteq> 0 then 1 else payload_len r)) \<and>
         (ipv6_header r \<noteq> None \<longrightarrow>
            sent_resetv6 os = [(resetv6 s', sizeof_TCPV6PACKET h)] \<and>
            tcp_SeqNum (tcp6 (resetv6 s')) =
              (if tcp_Ack (view_hdr tcpv) \<noteq> 0 then tcp_AckNum (view_hdr tcpv) else 0) \<and>
            ntohl (tcp_AckNum (tcp6 (resetv6 s'))) =
              ntohl (tcp_SeqNum (view_hdr tcpv)) +
              (if tcp_Syn (view_hdr tcpv) \<noteq> 0 then 1 else payload_len r))"
proof (intro conjI impI)
  assume "ip_header r \<noteq> None"
  then obtain ipv where i: "ip_header r = Some ipv" by auto
  note l = loop_body_reset [OF assms i]
  show "sent_reset os = [(reset s', sizeof_TCPPACKET h)]" by (rule l(2))
  show "tcp_SeqNum (tcp (reset s')) =
          (if tcp_Ack (view_hdr tcpv) \<noteq> 0 then tcp_AckNum (view_hdr tcpv) else 0)"
    unfolding l(1) by (simp add: synth_fields)
  show "ntohl (tcp_AckNum (tcp (reset s'))) =
          ntohl (tcp_SeqNum (view_hdr tcpv)) +
          (if tcp_Syn (view_hdr tcpv) \<noteq> 0 then 1 else payload_len r)"
    unfolding l(1) by (simp add: synth_fields ntohl_htonl)
next
  assume "ipv6_header r \<noteq> None"
  then obtain ip6v where i: "ipv6_header r = Some ip6v" by auto
  note l = loop_body_resetv6 [OF assms i]
  show "sent_resetv6 os = [(resetv6 s', sizeof_TCPV6PACKET h)]" by (rule l(2))
  show "tcp_SeqNum (tcp6 (resetv6 s')) =
          (if tcp_Ack (view_hdr tcpv) \<noteq> 0 then tcp_AckNum (view_hdr tcpv) else 0)"
    unfolding l(1) by (simp add: synth_fields)
  show "ntohl (tcp_AckNum (tcp6 (resetv6 s'))) =
          ntohl (tcp_SeqNum (view_hdr tcpv)) +
          (if tcp_Syn (view_hdr tcpv) \<noteq> 0 then 1 else payload_len r)"
    unfolding l(1) by (simp add: synth_fields ntohl_htonl)
qed

theorem rst_sequence_numbers_witness:
  "tcp_SeqNum (tcp (reset (fst (projr
      (loop_body sample_h (Recv rcv_syn_v4 sample_collab) sample_s0))))) = 0 \<and>
   ntohl (tcp_AckNum (tcp (reset (fst (projr
      (loop_body sample_h (Recv rcv_syn_v4 sample_collab) sample_s0)))))) = 1001 \<and>
   ntohl (tcp_SeqNum (tcp6 (resetv6 (fst (projr
      (loop_body sample_h (Recv rcv_ack_v6 sample_collab) sample_s0)))))) = 2000 \<and>
   ntohl (tcp_AckNum (tcp6 (resetv6 (fst (projr
      (loop_body sample_h (Recv rcv_ack_v6 sample_collab) sample_s0)))))) = 540"
proof -
  have t4: "tcp_header rcv_syn_v4 = Some sample_syn" "ip_header rcv_syn_v4 \<noteq> None"
    by (simp_all add: rcv_syn_v4_def)
  have t6: "tcp_header rcv_ack_v6 = Some sample_ack" "ipv6_header rcv_ack_v6 \<noteq> None"
    by (simp_all add: rcv_ack_v6_def)
  have p: "payload_len rcv_ack_v6 = 40" by (simp add: rcv_ack_v6_def)
  from rst_sequence_numbers [OF sample_step_defined [OF sample_reads_in_bounds(1)] t4(1)]
    rst_sequence_numbers [OF sample_step_defined [OF sample_reads_in_bounds(2)] t6(1)]
    t4(2) t6(2)
  show ?thesis
    by (simp add: sample_syn_def sample_ack_def ntohl_htonl p del: loop_body.simps)
qed

text \<open>
  Claim C2, as amended. In a state that the loop reaches: the reset over IPv4 carries as
  IPv4 total length the value stored at construction, which is the number of bytes sent
  behind the envelope; the reset over IPv6 carries as IPv6 payload length the value
  stored at construction, which is the number of bytes sent behind the IPv6 header; the
  ICMP message over IPv4 carries a total length computed for this packet, the number of
  bytes sent behind the envelope, that is the IPv4 header, the ICMP header and the
  embedded region; the ICMPv6 message carries as payload length the value stored at
  construction. The ICMP header is taken to be small enough for an IPv4 total length.
\<close>

theorem length_fields:
  assumes "run h evs (init_packets h u) = Inr (s, os0)"
    and "loop_body h (Recv r x) s = Inr (s', os)"
    and "unat (sizeof_DIVERT_ICMPHDR h) + 88 < 65536"
  shows "(tcp_header r \<noteq> None \<and> ip_header r \<noteq> None \<longrightarrow>
            sent_reset os = [(reset s', sizeof_TCPPACKET h)] \<and>
            ip_Length (ip (header (reset s'))) =
              ip_Length (ip (header (reset (init_packets h u)))) \<and>
            ucast (ntohs (ip_Length (ip (header (reset s'))))) =
              sizeof_TCPPACKET h - sizeof_DIVERT_PACKET h) \<and>
         (tcp_header r \<noteq> None \<and> ipv6_header r \<noteq> None \<longrightarrow>
            sent_resetv6 os = [(resetv6 s', sizeof_TCPV6PACKET h)] \<and>
            ipv6_Length (ipv6 (header6 (resetv6 s'))) =
              ipv6_Length (ipv6 (header6 (resetv6 (init_packets h u)))) \<and>
            ucast (ntohs (ipv6_Length (ipv6 (header6 (resetv6 s'))))) =
              sizeof_TCPV6PACKET h - sizeof_DIVERT_PACKET h - sizeof_DIVERT_IPV6HDR) \<and>
         (udp_header r \<noteq> None \<longrightarrow> (\<forall>ipv. ip_header r = Some ipv \<longrightarrow>
            sent_dnr os =
              [(dnr s', ucast (ip_HdrLength (view_hdr ipv)) * sizeof_UINT32 + 8 +
                        sizeof_ICMPPACKET h)] \<and>
            ucast (ntohs (ip_Length (ip (iheader (dnr s'))))) =
              ucast (ip_HdrLength (view_hdr ipv)) * sizeof_UINT32 + 8 + sizeof_ICMPPACKET h -
              sizeof_DIVERT_PACKET h \<and>
            unat (ucast (ip_HdrLength (view_hdr ipv)) * sizeof_UINT32 + 8 + sizeof_ICMPPACKET h -
                  sizeof_DIVERT_PACKET h) =
              20 + unat (sizeof_DIVERT_ICMPHDR h) +
              (unat (ip_HdrLength (view_hdr ipv)) * 4 + 8))) \<and>
         (udp_header r \<noteq> None \<and> ipv6_header r \<noteq> None \<longrightarrow>
            map fst (sent_dnrv6 os) = [dnrv6 s'] \<and>
            ipv6_Length (ipv6 (iheader6 (dnrv6 s'))) =
              ipv6_Length (ipv6 (iheader6 (dnrv6 (init_packets h u)))))"
proof (intro conjI impI allI; (elim conjE)?)
  assume "tcp_header r \<noteq> None" "ip_header r \<noteq> None"
  then obtain tcpv ipv where "tcp_header r = Some tcpv" "ip_header r = Some ipv" by auto
  from loop_body_reset(2) [OF assms(2) this]
  show "sent_reset os = [(reset s', sizeof_TCPPACKET h)]" .
  show k: "ip_Length (ip (header (reset s'))) =
          ip_Length (ip (header (reset (init_packets h u))))"
    by (rule reachable_lengths(1) [OF assms(1,2)])
  show "ucast (ntohs (ip_Length (ip (header (reset s'))))) =
          sizeof_TCPPACKET h - sizeof_DIVERT_PACKET h"
    unfolding k init_lengths reset_length_value by (simp add: ntohs_htons)
next
  assume "tcp_header r \<noteq> None" "ipv6_header r \<noteq> None"
  then obtain tcpv ip6v where "tcp_header r = Some tcpv" "ipv6_header r = Some ip6v" by auto
  from loop_body_resetv6(2) [OF assms(2) this]
  show "sent_resetv6 os = [(resetv6 s', sizeof_TCPV6PACKET h)]" .
  show k: "ipv6_Length (ipv6 (header6 (resetv6 s'))) =
          ipv6_Length (ipv6 (header6 (resetv6 (init_packets h u))))"
    by (rule reachable_lengths(2) [OF assms(1,2)])
  show "ucast (ntohs (ipv6_Length (ipv6 (header6 (resetv6 s'))))) =
          sizeof_TCPV6PACKET h - sizeof_DIVERT_PACKET h - sizeof_DIVERT_IPV6HDR"
    unfolding k init_lengths resetv6_length_value by (simp add: ntohs_htons)
next
  fix ipv
  assume "udp_header r \<noteq> None" and i: "ip_header r = Some ipv"
  then obtain udpv where u: "udp_header r = Some udpv" by auto
  note l = dnr_length_field [OF assms(2) u i assms(3)]
  show "sent_dnr os =
          [(dnr s', ucast (ip_HdrLength (view_hdr ipv)) * sizeof_UINT32 + 8 +
                    sizeof_ICMPPACKET h)]"
    by (rule l(1))
  show "ucast (ntohs (ip_Length (ip (iheader (dnr s'))))) =
          ucast (ip_HdrLength (view_hdr ipv)) * sizeof_UINT32 + 8 + sizeof_ICMPPACKET h -
          sizeof_DIVERT_PACKET h"
    by (rule l(2))
  show "unat (ucast (ip_HdrLength (view_hdr ipv)) * sizeof_UINT32 + 8 + sizeof_ICMPPACKET h -
              sizeof_DIVERT_PACKET h) =
          20 + unat (sizeof_DIVERT_ICMPHDR h) + (unat (ip_HdrLength (view_hdr ipv)) * 4 + 8)"
    by (rule l(3))
next
  assume "udp_header r \<noteq> None" "ipv6_header r \<noteq> None"
  then obtain udpv ip6v where "udp_header r = Some udpv" "ipv6_header r = Some ip6v" by auto
  from loop_body_dnrv6 [OF assms(2) this]
  show "map fst (sent_dnrv6 os) = [dnrv6 s']" by auto
  show "ipv6_Length (ipv6 (iheader6 (dnrv6 s'))) =
          ipv6_Length (ipv6 (iheader6 (dnrv6 (init_packets h u))))"
    by (rule reachable_lengths(3) [OF assms(1,2)])
qed

theorem length_fields_witness:
  "ucast (ntohs (ip_Length (ip (header (reset (fst (projr
      (loop_body sample_h (Recv rcv_syn_v4 sample_collab) sample_s0)))))))) = (40 :: UINT) \<and>
   ucast (ntohs (ipv6_Length (ipv6 (header6 (resetv6 (fst (projr
      (loop_body sample_h (Recv rcv_ack_v6 sample_collab) sample_s0)))))))) = (20 :: UINT) \<and>
   ucast (ntohs (ip_Length (ip (iheader (dnr (fst (projr
      (loop_body sample_h (Recv (rcv_udp_v4 1) sample_collab) sample_s0)))))))) = (56 :: UINT) \<and>
   map snd (sent_dnr (snd (projr
      (loop_body sample_h (Recv (rcv_udp_v4 1) sample_collab) sample_s0)))) = [68] \<and>
   ipv6_Length (ipv6 (iheader6 (dnrv6 (fst (projr
      (loop_body sample_h (Recv (rcv_udp_v6 0) sample_collab) sample_s0)))))) =
     ipv6_Length (ipv6 (iheader6 (dnrv6 sample_s0)))"
proof -
  have r0: "run sample_h [] (init_packets sample_h sample_uninit) =
              Inr (init_packets sample_h sample_uninit, [])"
    by simp
  have b: "unat (sizeof_DIVERT_ICMPHDR sample_h) + 88 < 65536"
    by (simp add: sample_h_def)
  have f: "tcp_header rcv_syn_v4 \<noteq> None" "ip_header rcv_syn_v4 \<noteq> None"
    "tcp_header rcv_ack_v6 \<noteq> None" "ipv6_header rcv_ack_v6 \<noteq> None"
    "udp_header (rcv_udp_v4 d) \<noteq> None" "ip_header (rcv_udp_v4 d) = Some (sample_ip 17)"
    "udp_header (rcv_udp_v6 d) \<noteq> None" "ipv6_header (rcv_udp_v6 d) \<noteq> None" for d
    by (simp_all add: rcv_syn_v4_def rcv_ack_v6_def rcv_udp_v4_def rcv_udp_v6_def)
  have v: "sizeof_TCPPACKET sample_h = 52" "sizeof_TCPV6PACKET sample_h = 72"
    "sizeof_ICMPPACKET sample_h = 40" "sizeof_DIVERT_PACKET sample_h = 12"
    "sizeof_DIVERT_IPV6HDR = 40" "sizeof_UINT32 = 4"
    "ip_HdrLength (view_hdr (sample_ip 17)) = 5"
    by (simp_all add: sample_ip_def sample_h_def sizeof_TCPPACKET_def sizeof_TCPV6PACKET_def
        sizeof_ICMPPACKET_def sizeof_PACKET_def sizeof_PACKETV6_def sizeof_DIVERT_IPHDR_def
        sizeof_DIVERT_IPV6HDR_def sizeof_DIVERT_TCPHDR_def sizeof_UINT32_def)
  note step = sample_step_defined [unfolded sample_s0_def]
  note l1 = length_fields [OF r0 step [OF sample_reads_in_bounds(1)] b,
      THEN conjunct1, THEN mp, OF conjI [OF f(1) f(2)]]
  note l2 = length_fields [OF r0 step [OF sample_reads_in_bounds(2)] b,
      THEN conjunct2, THEN conjunct1, THEN mp, OF conjI [OF f(3) f(4)]]
  note l3 = length_fields [OF r0 step [OF sample_reads_in_bounds(3)] b,
      THEN conjunct2, THEN conjunct2, THEN conjunct1, THEN mp, OF f(5), THEN spec, THEN mp,
      OF f(6), of 1]
  note l4 = length_fields [OF r0 step [OF sample_reads_in_bounds(4)] b,
      THEN conjunct2, THEN conjunct2, THEN conjunct2, THEN mp, OF conjI [OF f(7) f(8)], of 0]
  show ?thesis
  proof (intro conjI)
    show "ucast (ntohs (ip_Length (ip (header (reset (fst (projr
      (loop_body sample_h (Recv rcv_syn_v4 sample_collab) sample_s0)))))))) = (40 :: UINT)"
      using l1 [THEN conjunct2, THEN conjunct2]
      by (simp add: sample_s0_def [symmetric] v del: loop_body.simps)
    show "ucast (ntohs (ipv6_Length (ipv6 (header6 (resetv6 (fst (projr
      (loop_body sample_h (Recv rcv_ack_v6 sample_collab) sample_s0)))))))) = (20 :: UINT)"
      using l2 [THEN conjunct2, THEN conjunct2]
      by (simp add: sample_s0_def [symmetric] v del: loop_body.simps)
    show "ucast (ntohs (ip_Length (ip (iheader (dnr (fst (projr
      (loop_body sample_h (Recv (rcv_udp_v4 1) sample_collab) sample_s0)))))))) = (56 :: UINT)"
      using l3 [THEN conjunct2, THEN conjunct1]
      by (simp add: sample_s0_def [symmetric] v del: loop_body.simps)
    show "map snd (sent_dnr (snd (projr
      (loop_body sample_h (Recv (rcv_udp_v4 1) sample_collab) sample_s0)))) = [68]"
      using l3 [THEN conjunct1]
      by (simp add: sample_s0_def [symmetric] v del: loop_body.simps)
    show "ipv6_Length (ipv6 (iheader6 (dnrv6 (fst (projr
      (loop_body sample_h (Recv (rcv_udp_v6 0) sample_collab) sample_s0)))))) =
     ipv6_Length (ipv6 (iheader6 (dnrv6 sample_s0)))"
      using l4 [THEN conjunct2]
      by (simp add: sample_s0_def [symmetric] del: loop_body.simps)
  qed
qed

text \<open>
  Claim C2 as stated fails for the reset over IPv4: the total length in the buffer sent
  is the value that the template got when it was built.
\<close>

theorem rst_length_is_build_time_value:
  "sent_reset (snd (projr (loop_body sample_h (Recv rcv_syn_v4 sample_collab) sample_s0))) =
     [(reset (fst (projr (loop_body sample_h (Recv rcv_syn_v4 sample_collab) sample_s0))),
       sizeof_TCPPACKET sample_h)] \<and>
   ip_Length (ip (header (reset (fst (projr
      (loop_body sample_h (Recv rcv_syn_v4 sample_collab) sample_s0)))))) =
     ip_Length (ip (header (reset (init_packets sample_h sample_uninit))))"
proof -
  have f: "tcp_header rcv_syn_v4 = Some sample_syn"
    "ip_header rcv_syn_v4 = Some (sample_ip IPPROTO_TCP)"
    by (simp_all add: rcv_syn_v4_def)
  note step = sample_step_defined [OF sample_reads_in_bounds(1)]
  from loop_body_reset(2) [OF step f] loop_body_lengths_kept(1) [OF step]
  show ?thesis
    by (simp add: sample_s0_def del: loop_body.simps)
qed

text \<open>
  Claim C3, as amended. The reset that an iteration sends for a packet with a TCP header,
  over IPv4 or over IPv6, has as direction the logical negation of the direction of the
  intercepted packet. The ICMP and ICMPv6 messages sent for a packet with a UDP header
  have the outbound direction instead, whatever the intercepted direction.
\<close>

theorem response_directions:
  assumes "loop_body h (Recv r x) s = Inr (s', os)"
  shows "(tcp_header r \<noteq> None \<and> ip_header r \<noteq> None \<longrightarrow>
            map fst (sent_reset os) = [reset s'] \<and>
            Direction (divert (header (reset s'))) = lnot (Direction (ppacket r))) \<and>
         (tcp_header r \<noteq> None \<and> ipv6_header r \<noteq> None \<longrightarrow>
            map fst (sent_resetv6 os) = [resetv6 s'] \<and>
            Direction (divert6 (header6 (resetv6 s'))) = lnot (Direction (ppacket r))) \<and>
         (udp_header r \<noteq> None \<and> ip_header r \<noteq> None \<longrightarrow>
            map fst (sent_dnr os) = [dnr s'] \<and>
            Direction (divert (iheader (dnr s'))) = DIVERT_PACKET_DIRECTION_OUTBOUND h) \<and>
         (udp_header r \<noteq> None \<and> ipv6_header r \<noteq> None \<longrightarrow>
            map fst (sent_dnrv6 os) = [dnrv6 s'] \<and>
            Direction (divert6 (iheader6 (dnrv6 s'))) = DIVERT_PACKET_DIRECTION_OUTBOUND h)"
proof (intro conjI impI; elim conjE)
  assume "tcp_header r \<noteq> None" "ip_header r \<noteq> None"
  then obtain tcpv ipv where "tcp_header r = Some tcpv" "ip_header r = Some ipv" by auto
  from loop_body_reset [OF assms this]
  show "map fst (sent_reset os) = [reset s']"
    and "Direction (divert (header (reset s'))) = lnot (Direction (ppacket r))"
    by (simp_all add: synth_fields)
next
  assume "tcp_header r \<noteq> None" "ipv6_header r \<noteq> None"
  then obtain tcpv ip6v where "tcp_header r = Some tcpv" "ipv6_header r = Some ip6v" by auto
  from loop_body_resetv6 [OF assms this]
  show "map fst (sent_resetv6 os) = [resetv6 s']"
    and "Direction (divert6 (header6 (resetv6 s'))) = lnot (Direction (ppacket r))"
    by (simp_all add: synth_fields)
next
  assume "udp_header r \<noteq> None" "ip_header r \<noteq> None"
  then obtain udpv ipv where "udp_header r = Some udpv" "ip_header r = Some ipv" by auto
  from loop_body_dnr [OF assms this]
  show "map fst (sent_dnr os) = [dnr s']"
    and "Direction (divert (iheader (dnr s'))) = DIVERT_PACKET_DIRECTION_OUTBOUND h"
    by (auto simp: synth_fields)
next
  assume "udp_header r \<noteq> None" "ipv6_header r \<noteq> None"
  then obtain udpv ip6v where "udp_header r = Some udpv" "ipv6_header r = Some ip6v" by auto
  from loop_body_dnrv6 [OF assms this]
  show "map fst (sent_dnrv6 os) = [dnrv6 s']"
    and "Direction (divert6 (iheader6 (dnrv6 s'))) = DIVERT_PACKET_DIRECTION_OUTBOUND h"
    by (auto simp: synth_fields)
qed

theorem response_directions_witness:
  "Direction (divert (header (reset (fst (projr
      (loop_body sample_h (Recv rcv_syn_v4 sample_collab) sample_s0)))))) = 0 \<and>
   Direction (ppacket rcv_syn_v4) = 1 \<and>
   Direction (divert6 (header6 (resetv6 (fst (projr
      (loop_body sample_h (Recv rcv_ack_v6 sample_collab) sample_s0)))))) = 1 \<and>
   Direction (ppacket rcv_ack_v6) = 0 \<and>
   Direction (divert (iheader (dnr (fst (projr
      (loop_body sample_h (Recv (rcv_udp_v4 1) sample_collab) sample_s0)))))) = 0 \<and>
   Direction (divert6 (iheader6 (dnrv6 (fst (projr
      (loop_body sample_h (Recv (rcv_udp_v6 0) sample_collab) sample_s0)))))) = 0"
proof -
  have f: "tcp_header rcv_syn_v4 \<noteq> None" "ip_header rcv_syn_v4 \<noteq> None"
    "tcp_header rcv_ack_v6 \<noteq> None" "ipv6_header rcv_ack_v6 \<noteq> None"
    "udp_header (rcv_udp_v4 d) \<noteq> None" "ip_header (rcv_udp_v4 d) \<noteq> None"
    "udp_header (rcv_udp_v6 d) \<noteq> None" "ipv6_header (rcv_udp_v6 d) \<noteq> None" for d
    by (simp_all add: rcv_syn_v4_def rcv_ack_v6_def rcv_udp_v4_def rcv_udp_v6_def)
  have d: "Direction (ppacket rcv_syn_v4) = 1" "Direction (ppacket rcv_ack_v6) = 0"
    by (simp_all add: rcv_syn_v4_def rcv_ack_v6_def sample_received_def)
  from response_directions [OF sample_step_defined [OF sample_reads_in_bounds(1)]]
    response_directions [OF sample_step_defined [OF sample_reads_in_bounds(2)]]
    response_directions [OF sample_step_defined [OF sample_reads_in_bounds(3)], of 1]
    response_directions [OF sample_step_defined [OF sample_reads_in_bounds(4)], of 0]
    f d
  show ?thesis
    by (simp add: sample_h_def lnot_def del: loop_body.simps)
qed

text \<open>
  Claim C3 as stated fails for an outbound UDP packet over IPv4: the ICMP message sent
  has the outbound direction too, and not its negation.
\<close>

theorem icmp_direction_not_inverted:
  "map fst (sent_dnr (snd (projr
      (loop_body sample_h (Recv (rcv_udp_v4 0) sample_collab) sample_s0)))) =
     [dnr (fst (projr (loop_body sample_h (Recv (rcv_udp_v4 0) sample_collab) sample_s0)))] \<and>
   Direction (ppacket (rcv_udp_v4 0)) = DIVERT_PACKET_DIRECTION_OUTBOUND sample_h \<and>
   Direction (divert (iheader (dnr (fst (projr
      (loop_body sample_h (Recv (rcv_udp_v4 0) sample_collab) sample_s0)))))) \<noteq>
     lnot (Direction (ppacket (rcv_udp_v4 0)))"
proof -
  have u: "udp_header (rcv_udp_v4 0) = Some sample_udp"
    "ip_header (rcv_udp_v4 0) = Some (sample_ip 17)"
    by (simp_all add: rcv_udp_v4_def)
  have d: "Direction (ppacket (rcv_udp_v4 0)) = 0"
    by (simp add: rcv_udp_v4_def sample_received_def)
  from loop_body_dnr [OF sample_step_defined [OF sample_reads_in_bounds(3)] u]
  show ?thesis
    by (auto simp: synth_fields sample_h_def lnot_def d simp del: loop_body.simps)
qed

text \<open>
  Claim C4. Whenever an iteration handles a packet with a UDP header, the ICMP message it
  sends (if there is an IPv4 header) and the ICMPv6 message it sends (if there is an IPv6
  header) have the outbound direction in their envelope, whatever the direction of the
  intercepted packet.
\<close>

theorem unreachable_direction_outbound:
  assumes "loop_body h (Recv r x) s = Inr (s', os)" and "udp_header r = Some udpv"
  shows "(ip_header r \<noteq> None \<longrightarrow>
            map fst (sent_dnr os) = [dnr s'] \<and>
            Direction (divert (iheader (dnr s'))) = DIVERT_PACKET_DIRECTION_OUTBOUND h) \<and>
         (ipv6_header r \<noteq> None \<longrightarrow>
            map fst (sent_dnrv6 os) = [dnrv6 s'] \<and>
            Direction (divert6 (iheader6 (dnrv6 s'))) = DIVERT_PACKET_DIRECTION_OUTBOUND h)"
proof (intro conjI impI)
  assume "ip_header r \<noteq> None"
  then obtain ipv where i: "ip_header r = Some ipv" by auto
  from loop_body_dnr [OF assms i]
  show "map fst (sent_dnr os) = [dnr s']"
    and "Direction (divert (iheader (dnr s'))) = DIVERT_PACKET_DIRECTION_OUTBOUND h"
    by (auto simp: synth_fields)
next
  assume "ipv6_header r \<noteq> None"
  then obtain ip6v where i: "ipv6_header r = Some ip6v" by auto
  from loop_body_dnrv6 [OF assms i]
  show "map fst (sent_dnrv6 os) = [dnrv6 s']"
    and "Direction (divert6 (iheader6 (dnrv6 s'))) = DIVERT_PACKET_DIRECTION_OUTBOUND h"
    by (auto simp: synth_fields)
qed

theorem unreachable_direction_outbound_witness:
  "Direction (divert (iheader (dnr (fst (projr
      (loop_body sample_h (Recv (rcv_udp_v4 1) sample_collab) sample_s0)))))) = 0 \<and>
   Direction (divert (iheader (dnr (fst (projr
      (loop_body sample_h (Recv (rcv_udp_v4 0) sample_collab) sample_s0)))))) = 0 \<and>
   Direction (divert6 (iheader6 (dnrv6 (fst (projr
      (loop_body sample_h (Recv (rcv_udp_v6 1) sample_collab) sample_s0)))))) = 0 \<and>
   Direction (divert6 (iheader6 (dnrv6 (fst (projr
      (loop_body sample_h (Recv (rcv_udp_v6 0) sample_collab) sample_s0)))))) = 0"
proof -
  have u: "udp_header (rcv_udp_v4 d) = Some sample_udp" "ip_header (rcv_udp_v4 d) \<noteq> None"
    "udp_header (rcv_udp_v6 d) = Some sample_udp" "ipv6_header (rcv_udp_v6 d) \<noteq> None" for d
    by (simp_all add: rcv_udp_v4_def rcv_udp_v6_def)
  from unreachable_direction_outbound [OF sample_step_defined [OF sample_reads_in_bounds(3)] u(1)]
    unreachable_direction_outbound [OF sample_step_defined [OF sample_reads_in_bounds(4)] u(3)]
    u(2,4)
  show ?thesis
    by (simp add: sample_h_def del: loop_body.simps)
qed

text \<open>
  Claim C5. Whenever an iteration handles a packet with a TCP header and an IPv4 header,
  the reset it sends has the intercepted destination address as source address, the
  intercepted source address as destination address, the intercepted destination port as
  source port and the intercepted source port as destination port, for all addresses and
  ports.
\<close>

theorem rst_addresses_and_ports_swapped:
  assumes "loop_body h (Recv r x) s = Inr (s', os)"
    and "tcp_header r = Some tcpv" and "ip_header r = Some ipv"
  shows "sent_reset os = [(reset s', sizeof_TCPPACKET h)] \<and>
         ip_SrcAddr (ip (header (reset s'))) = ip_DstAddr (view_hdr ipv) \<and>
         ip_DstAddr (ip (header (reset s'))) = ip_SrcAddr (view_hdr ipv) \<and>
         tcp_SrcPort (tcp (reset s')) = tcp_DstPort (view_hdr tcpv) \<and>
         tcp_DstPort (tcp (reset s')) = tcp_SrcPort (view_hdr tcpv)"
  using loop_body_reset [OF assms] by (simp add: synth_fields)

theorem rst_addresses_and_ports_swapped_witness:
  "ip_SrcAddr (ip (header (reset (fst (projr
      (loop_body sample_h (Recv rcv_syn_v4 sample_collab) sample_s0)))))) = htonl 0x0A000002 \<and>
   ip_DstAddr (ip (header (reset (fst (projr
      (loop_body sample_h (Recv rcv_syn_v4 sample_collab) sample_s0)))))) = htonl 0x0A000001 \<and>
   tcp_SrcPort (tcp (reset (fst (projr
      (loop_body sample_h (Recv rcv_syn_v4 sample_collab) sample_s0))))) = htons 80 \<and>
   tcp_DstPort (tcp (reset (fst (projr
      (loop_body sample_h (Recv rcv_syn_v4 sample_collab) sample_s0))))) = htons 40000"
proof -
  have t: "tcp_header rcv_syn_v4 = Some sample_syn"
    and i: "ip_header rcv_syn_v4 = Some (sample_ip IPPROTO_TCP)"
    by (simp_all add: rcv_syn_v4_def)
  from rst_addresses_and_ports_swapped
         [OF sample_step_defined [OF sample_reads_in_bounds(1)] t i]
  show ?thesis
    by (simp add: sample_syn_def sample_ip_def del: loop_body.simps)
qed

text \<open>
  Claim C6. For every packet with a UDP header and an IPv4 header, handled in a state that
  the loop reaches, the ICMP message sent holds in its data area exactly
  \<open>HdrLength * 4 + 8\<close> bytes of the receive buffer, starting at the intercepted IPv4
  header (28 bytes when \<open>HdrLength\<close> is 5); the rest of the data area is untouched; and
  the ICMP type and code are 3 and 3.
\<close>

theorem embedded_region_ipv4:
  assumes "run h evs (init_packets h u) = Inr (s, os0)"
    and "loop_body h (Recv r x) s = Inr (s', os)"
    and "udp_header r = Some udpv" and "ip_header r = Some ipv"
  shows "map fst (sent_dnr os) = [dnr s'] \<and>
         take (unat (ip_HdrLength (view_hdr ipv)) * 4 + 8) (data (dnr s')) =
           take (unat (ip_HdrLength (view_hdr ipv)) * 4 + 8) (drop (view_off ipv) (packet r)) \<and>
         length (take (unat (ip_HdrLength (view_hdr ipv)) * 4 + 8)
                   (drop (view_off ipv) (packet r))) =
           unat (ip_HdrLength (view_hdr ipv)) * 4 + 8 \<and>
         drop (unat (ip_HdrLength (view_hdr ipv)) * 4 + 8) (data (dnr s')) =
           drop (unat (ip_HdrLength (view_hdr ipv)) * 4 + 8) (data (dnr s)) \<and>
         (ip_HdrLength (view_hdr ipv) = 5 \<longrightarrow>
            unat (ip_HdrLength (view_hdr ipv)) * 4 + 8 = 28) \<and>
         icmp_Type (icmp (dnr s')) = 3 \<and> icmp_Code (icmp (dnr s')) = 3"
proof -
  let ?n = "unat (ip_HdrLength (view_hdr ipv)) * 4 + 8"
  from loop_body_dnr [OF assms(2,3,4)] obtain d
    where m: "memcpy (data (dnr s)) (packet r) (view_off ipv) ?n = Inr d"
      and eq: "dnr s' = CalcChecksums_dnr (sums_dnr x)
                 (fill_dnr h r (view_hdr ipv)
                    (ucast (ip_HdrLength (view_hdr ipv)) * sizeof_UINT32 + 8 + sizeof_ICMPPACKET h)
                    ((dnr s)\<lparr>data := d\<rparr>))"
      and sent: "map fst (sent_dnr os) = [dnr s']"
    unfolding icmp_length_unat by auto
  from memcpy_Inr [OF m] have le: "?n \<le> length (data (dnr s))"
    and rd: "view_off ipv + ?n \<le> length (packet r)"
    and d: "d = take ?n (drop (view_off ipv) (packet r)) @ drop ?n (data (dnr s))"
    by simp_all
  have dd: "data (dnr s') = d" unfolding eq by (simp add: synth_fields)
  have len: "length (take ?n (drop (view_off ipv) (packet r))) = ?n"
    using rd by simp
  have fixed: "templates_fixed s'"
    using loop_body_fixed [OF assms(2) run_fixed [OF assms(1) init_fixed]] .
  show ?thesis
  proof (intro conjI)
    show "map fst (sent_dnr os) = [dnr s']" by (rule sent)
    show "take ?n (data (dnr s')) = take ?n (drop (view_off ipv) (packet r))"
      unfolding dd d using len by simp
    show "length (take ?n (drop (view_off ipv) (packet r))) = ?n" by (rule len)
    show "drop ?n (data (dnr s')) = drop ?n (data (dnr s))"
      unfolding dd d using len by simp
    show "ip_HdrLength (view_hdr ipv) = 5 \<longrightarrow> ?n = 28" by simp
    show "icmp_Type (icmp (dnr s')) = 3" "icmp_Code (icmp (dnr s')) = 3"
      using fixed by (simp_all add: templates_fixed_def)
  qed
qed

theorem embedded_region_ipv4_witness:
  "take 28 (data (dnr (fst (projr
      (loop_body sample_h (Recv (rcv_udp_v4 1) sample_collab) sample_s0))))) =
     map of_nat [12..<40] \<and>
   drop 28 (data (dnr (fst (projr
      (loop_body sample_h (Recv (rcv_udp_v4 1) sample_collab) sample_s0))))) =
     replicate 41 0xCC \<and>
   icmp_Type (icmp (dnr (fst (projr
      (loop_body sample_h (Recv (rcv_udp_v4 1) sample_collab) sample_s0))))) = 3 \<and>
   icmp_Code (icmp (dnr (fst (projr
      (loop_body sample_h (Recv (rcv_udp_v4 1) sample_collab) sample_s0))))) = 3"
proof -
  have r0: "run sample_h [] (init_packets sample_h sample_uninit) =
              Inr (init_packets sample_h sample_uninit, [])"
    by simp
  have u: "udp_header (rcv_udp_v4 1) = Some sample_udp"
    "ip_header (rcv_udp_v4 1) = Some (sample_ip 17)"
    by (simp_all add: rcv_udp_v4_def)
  have p: "packet (rcv_udp_v4 1) = map of_nat [0..<2048]"
    by (simp add: rcv_udp_v4_def sample_received_def sample_packet_def MAXBUF_def)
  have d0: "data (dnr sample_s0) = replicate 69 0xCC"
    by (simp add: sample_s0_def init_packets_def PacketIpIcmpInit_def Let_def sample_uninit_def
        dnr_data_size_def sizeof_UINT32_def map_replicate_const)
  from embedded_region_ipv4
         [OF r0 sample_step_defined [OF sample_reads_in_bounds(3), unfolded sample_s0_def] u]
  show ?thesis
    by (simp add: sample_s0_def [symmetric] sample_ip_def p d0 take_map drop_map
        del: loop_body.simps)
qed

text \<open>
  Claim C7. The fields fixed at construction keep their values: they hold when the loop is
  entered, and in every state that the loop reaches after any sequence of received
  packets. The loop does reach a state whenever each copy reads inside the receive
  buffer.
\<close>

theorem templates_keep_fixed_fields:
  "templates_fixed (init_packets h u) \<and>
   (run h evs (init_packets h u) = Inr (s, os) \<longrightarrow> templates_fixed s) \<and>
   (list_all reads_in_bounds evs \<longrightarrow>
      (\<exists>s os. run h evs (init_packets h u) = Inr (s, os) \<and> templates_fixed s))"
proof (intro conjI impI)
  show "templates_fixed (init_packets h u)" by (rule init_fixed)
  show "templates_fixed s" if "run h evs (init_packets h u) = Inr (s, os)"
    using run_fixed [OF that init_fixed] .
  show "\<exists>s os. run h evs (init_packets h u) = Inr (s, os) \<and> templates_fixed s"
    if "list_all reads_in_bounds evs"
  proof -
    from run_defined [OF that init_data_length]
    obtain s' os' where r: "run h evs (init_packets h u) = Inr (s', os')" by blast
    with run_fixed [OF r init_fixed] show ?thesis by blast
  qed
qed

theorem templates_keep_fixed_fields_witness:
  "templates_fixed (fst (projr (run sample_h
      [Recv rcv_syn_v4 sample_collab, Recv (rcv_udp_v4 1) sample_collab, RecvFailed,
       Recv rcv_ack_v6 sample_collab, Recv (rcv_udp_v6 0) sample_collab] sample_s0)))"
proof -
  let ?evs = "[Recv rcv_syn_v4 sample_collab, Recv (rcv_udp_v4 1) sample_collab, RecvFailed,
       Recv rcv_ack_v6 sample_collab, Recv (rcv_udp_v6 0) sample_collab]"
  have b: "list_all reads_in_bounds ?evs"
    using sample_reads_in_bounds by (simp add: reads_in_bounds_def)
  note t = templates_keep_fixed_fields [of sample_h sample_uninit ?evs
      "fst (projr (run sample_h ?evs sample_s0))" "snd (projr (run sample_h ?evs sample_s0))"]
  from t [THEN conjunct2, THEN conjunct2, THEN mp, OF b]
  obtain s os where r: "run sample_h ?evs sample_s0 = Inr (s, os)"
    by (auto simp: sample_s0_def)
  then have "run sample_h ?evs (init_packets sample_h sample_uninit) =
      Inr (fst (projr (run sample_h ?evs sample_s0)), snd (projr (run sample_h ?evs sample_s0)))"
    by (simp add: sample_s0_def)
  from t [THEN conjunct2, THEN conjunct1, THEN mp, OF this] show ?thesis .
qed

text \<open>
  Claim C8. If the arguments joined by single spaces, with the terminating NUL, take
  \<open>MAXBUF\<close> bytes or more (in particular if the joined string is longer than \<open>MAXBUF\<close>),
  the program prints the diagnostic, exits with \<open>EXIT_FAILURE\<close>, which is not zero, and
  does not call \<^verbatim>\<open>DivertOpen\<close>.
\<close>

theorem filter_too_long_is_fatal:
  assumes "MAXBUF \<le> length (joined args) + 1"
  shows "main h u args opened evs = ([Stderr ''error: filter too long''], Exit EXIT_FAILURE) \<and>
         EXIT_FAILURE \<noteq> 0 \<and>
         opened_with (fst (main h u args opened evs)) = []"
proof -
  from assms have "args \<noteq> []" by (auto simp: MAXBUF_def)
  with assms have "MAXBUF \<le> length (spaced args)" by (simp add: length_spaced_joined)
  from main_too_long [OF this] show ?thesis by (simp add: EXIT_FAILURE_def)
qed

theorem filter_too_long_is_fatal_witness:
  "main sample_h sample_uninit [replicate 2047 (CHR ''a'')] Handle [] =
     ([Stderr ''error: filter too long''], Exit 1)"
proof -
  have "MAXBUF \<le> length (joined [replicate 2047 (CHR ''a'')]) + 1"
    by (simp add: MAXBUF_def)
  from filter_too_long_is_fatal [OF this] show ?thesis
    by (simp add: EXIT_FAILURE_def)
qed

text \<open>
  Claim C9, as amended. If the arguments, each followed by one space, take fewer than
  \<open>MAXBUF\<close> bytes (the check of the program), the filter string handed to
  \<^verbatim>\<open>DivertOpen\<close> is each argument followed by one space: the arguments joined by single
  spaces and one more space at the end, or the empty string if there is no argument.
\<close>

theorem filter_string_opened:
  assumes "length (spaced args) < MAXBUF" and "\<forall>a\<in>set args. NUL \<notin> set a"
  shows "opened_with (fst (main h u args opened evs)) = [spaced args] \<and>
         spaced args = (if args = [] then [] else joined args @ [CHR '' ''])"
  using main_opens [OF assms] spaced_joined by simp

theorem filter_string_opened_witness:
  "opened_with (fst (main sample_h sample_uninit [''tcp'', ''and'', ''ip''] Handle [])) =
     [''tcp and ip '']"
proof -
  have "length (spaced [''tcp'', ''and'', ''ip'']) < MAXBUF"
    and "\<forall>a\<in>set [''tcp'', ''and'', ''ip'']. NUL \<notin> set a"
    by (simp_all add: MAXBUF_def NUL_def)
  from filter_string_opened [OF this] show ?thesis by simp
qed

text \<open>
  Claim C9 as stated fails for the single argument \<open>tcp\<close>: the string handed to
  \<^verbatim>\<open>DivertOpen\<close> ends in a space, which the arguments joined by single spaces do not
  have.
\<close>

theorem filter_string_has_trailing_space:
  "opened_with (fst (main sample_h sample_uninit [''tcp''] Handle [])) = [''tcp ''] \<and>
   joined [''tcp''] = ''tcp'' \<and>
   opened_with (fst (main sample_h sample_uninit [''tcp''] Handle [])) \<noteq> [joined [''tcp'']]"
proof -
  have "length (spaced [''tcp'']) < MAXBUF" and "\<forall>a\<in>set [''tcp'']. NUL \<notin> set a"
    by (simp_all add: MAXBUF_def NUL_def)
  from main_opens [OF this] show ?thesis by simp
qed

text \<open>
  Claim C10. The copy of the embedded region into the trailing data area of the ICMP
  packet never leaves that area: the number of bytes copied, four times a 4-bit word
  count plus eight, is below the \<open>15 * 4 + 8 + 1\<close> bytes that the array provides behind
  the struct, so the program never reaches the out-of-bounds write, for any arguments
  and any sequence of received packets.
\<close>

theorem embedded_copy_within_bounds:
  "unat (ucast (hl :: 4 word) * sizeof_UINT32 + 8 :: UINT) < dnr_data_size \<and>
   dnr_data_size = 15 * 4 + 8 + 1 \<and>
   run h evs (init_packets h u) \<noteq> Inl WriteOutOfBounds \<and>
   snd (main h u args opened evs) \<noteq> Undefined WriteOutOfBounds"
proof (intro conjI)
  show "unat (ucast hl * sizeof_UINT32 + 8 :: UINT) < dnr_data_size"
    by (rule icmp_length_le)
  show "dnr_data_size = 15 * 4 + 8 + 1"
    by (simp add: dnr_data_size_def sizeof_UINT32_def)
  show r: "run h evs (init_packets h u) \<noteq> Inl WriteOutOfBounds"
    by (rule run_write_ok) (rule init_data_length)+
  show "snd (main h u args opened evs) \<noteq> Undefined WriteOutOfBounds"
    using r main_Undefined by blast
qed

end
